theory Spec2Isabelle
  imports Complex_Main "HOL-Library.Word"
begin

unbundle bit_operations_syntax

text \<open>
  The mesh repository of the viewer (indra/newview/llmeshrepository.cpp): the registry
  the render loop talks to, the worker that fetches headers and sub-sections of mesh
  assets from the cache or over HTTP, and the handlers of the HTTP responses. The
  definitions follow the functions of that file; what those functions call outside it
  (the transport, the parsers, the cache files, the volume manager) enters as an
  argument or is modelled as the text says.
\<close>

section \<open>Machine types\<close>

text \<open>
  \<open>U32\<close> and \<open>S32\<close> are both 32-bit words: arithmetic wraps, and where the source
  compares a signed variable the model compares its value \<open>sint\<close>. An \<open>LLUUID\<close> is
  an opaque 128-bit value.
\<close>

type_synonym U8 = "8 word"
type_synonym U32 = "32 word"
type_synonym S32 = "32 word"
type_synonym LLUUID = "128 word"

section \<open>Constants of llmeshrepository.cpp\<close>

definition CACHE_PREAMBLE_VERSION :: U32 where
  "CACHE_PREAMBLE_VERSION = 1"

definition CACHE_PREAMBLE_SIZE :: S32 where
  "CACHE_PREAMBLE_SIZE = 12"

definition MESH_HEADER_SIZE :: S32 where
  "MESH_HEADER_SIZE = 4096"

definition DOWNLOAD_RETRY_LIMIT :: U32 where
  "DOWNLOAD_RETRY_LIMIT = 8"

definition DOWNLOAD_RETRY_DELAY :: real where
  "DOWNLOAD_RETRY_DELAY = 0.5"

definition MAX_MESH_VERSION :: S32 where
  "MAX_MESH_VERSION = 999"

definition NUM_LODS :: nat where
  "NUM_LODS = 4"

section \<open>RequestStats: retry count and back-off timer\<close>

text \<open>
  The timer class is declared outside this file. It is kept as the two things
  \<open>RequestStats\<close> uses of it: whether it was started and the absolute time at which it
  expires. \<open>setTimerExpirySec d\<close> after \<open>reset\<close> makes it expire \<open>d\<close> seconds
  after the current time. The delay is \<open>DOWNLOAD_RETRY_DELAY * (F32)modifier\<close>: half a
  power of two, which a 32-bit float holds exactly, so a real number stands for it.
\<close>

record LLFrameTimer =
  mStarted :: bool
  mExpiry :: real

record RequestStats =
  mRetries :: U32
  mTimer :: LLFrameTimer

definition new_RequestStats :: RequestStats where
  "new_RequestStats = \<lparr>mRetries = 0, mTimer = \<lparr>mStarted = False, mExpiry = 0\<rparr>\<rparr>"

text \<open>\<open>U32 modifier = 1 << mRetries; mRetries++; mTimer.reset(); mTimer.setTimerExpirySec(...)\<close>\<close>

definition retry_modifier :: "'a RequestStats_scheme \<Rightarrow> U32" where
  "retry_modifier r = push_bit (unat (mRetries r)) 1"

definition updateTime :: "real \<Rightarrow> 'a RequestStats_scheme \<Rightarrow> 'a RequestStats_scheme" where
  "updateTime now r =
     (let modifier = retry_modifier r in
      r\<lparr>mRetries := mRetries r + 1,
        mTimer := \<lparr>mStarted = True,
                   mExpiry = now + DOWNLOAD_RETRY_DELAY * real (unat modifier)\<rparr>\<rparr>)"

definition canRetry :: "'a RequestStats_scheme \<Rightarrow> bool" where
  "canRetry r = (mRetries r < DOWNLOAD_RETRY_LIMIT)"

definition isDelayed :: "real \<Rightarrow> 'a RequestStats_scheme \<Rightarrow> bool" where
  "isDelayed now r = (mStarted (mTimer r) \<and> \<not> (mExpiry (mTimer r) \<le> now))"

text \<open>
  The branch every queue of \<open>LLMeshRepoThread::run\<close> takes when a fetch returned false:
  a request that can retry is re-queued with its time updated, any other is given up
  (\<open>None\<close>).
\<close>

definition on_fetch_failed :: "real \<Rightarrow> 'a RequestStats_scheme \<Rightarrow> 'a RequestStats_scheme option" where
  "on_fetch_failed now r = (if canRetry r then Some (updateTime now r) else None)"

text \<open>The fate of a request whose attempts fail at the times \<open>ts\<close>, one after the other.\<close>

fun failed_attempts :: "real list \<Rightarrow> 'a RequestStats_scheme \<Rightarrow> 'a RequestStats_scheme option" where
  "failed_attempts [] r = Some r"
| "failed_attempts (t # ts) r =
     (case on_fetch_failed t r of None \<Rightarrow> None | Some r' \<Rightarrow> failed_attempts ts r')"

section \<open>The mesh header\<close>

text \<open>
  A C array of four entries, one per level of detail. Every index handed to \<open>lod_at\<close>
  and \<open>lod_upd\<close> below is checked to lie in 0..3 first; where the source indexes
  without a check, the model reports the out-of-range index instead of reading.
\<close>

datatype 'a lod_array = LodArray 'a 'a 'a 'a

fun lod_at :: "'a lod_array \<Rightarrow> nat \<Rightarrow> 'a" where
  "lod_at (LodArray a b c d) i =
     (if i = 0 then a else if i = 1 then b else if i = 2 then c else d)"

fun lod_upd :: "'a lod_array \<Rightarrow> nat \<Rightarrow> 'a \<Rightarrow> 'a lod_array" where
  "lod_upd (LodArray a b c d) i v =
     (if i = 0 then LodArray v b c d else if i = 1 then LodArray a v c d
      else if i = 2 then LodArray a b v d else LodArray a b c v)"

definition lod_fill :: "'a \<Rightarrow> 'a lod_array" where
  "lod_fill v = LodArray v v v v"

definition valid_lod :: "S32 \<Rightarrow> bool" where
  "valid_lod lod = (0 \<le> sint lod \<and> sint lod < int NUM_LODS)"

definition lod_index :: "S32 \<Rightarrow> nat" where
  "lod_index lod = nat (sint lod)"

text \<open>
  \<open>LLMeshHeader\<close> is declared in the header file; these are the members the code of
  llmeshrepository.cpp reads and writes.
\<close>

record LLMeshHeader =
  mVersion :: S32
  mHeaderSize :: U32
  mSkinOffset :: S32
  mSkinSize :: S32
  mPhysicsConvexOffset :: S32
  mPhysicsConvexSize :: S32
  mPhysicsMeshOffset :: S32
  mPhysicsMeshSize :: S32
  mLodOffset :: "S32 lod_array"
  mLodSize :: "S32 lod_array"
  m404 :: bool
  mSkinInCache :: bool
  mPhysicsConvexInCache :: bool
  mPhysicsMeshInCache :: bool
  mLodInCache :: "bool lod_array"

definition llclamp :: "S32 \<Rightarrow> S32 \<Rightarrow> S32 \<Rightarrow> S32" where
  "llclamp a minval maxval =
     (if sint a < sint minval then minval else if sint maxval < sint a then maxval else a)"

definition lod_present :: "LLMeshHeader \<Rightarrow> nat \<Rightarrow> bool" where
  "lod_present header i = (0 < sint (lod_at (mLodSize header) i))"

text \<open>
  \<open>LLMeshRepository::getActualMeshLOD(LLMeshHeader&, S32)\<close>: the LOD to use and the
  header, which the function marks 404 when it finds no LOD at all.
\<close>

definition getActualMeshLOD :: "LLMeshHeader \<Rightarrow> S32 \<Rightarrow> S32 \<times> LLMeshHeader" where
  "getActualMeshLOD header lod0 =
     (let lod = lod_index (llclamp lod0 0 3) in
      if m404 header then (- 1, header)
      else if sint MAX_MESH_VERSION < sint (mVersion header) then (- 1, header)
      else if lod_present header lod then (of_nat lod, header)
      else (case find (lod_present header) (rev [0..<lod]) of
              Some i \<Rightarrow> (of_nat i, header)
            | None \<Rightarrow>
               (case find (lod_present header) [Suc lod..<NUM_LODS] of
                  Some i \<Rightarrow> (of_nat i, header)
                | None \<Rightarrow> (- 1, header\<lparr>m404 := True\<rparr>))))"

text \<open>
  Modelled from the spec: \<open>getFlags\<close> and \<open>setFromFlags\<close> are members of
  \<open>LLMeshHeader\<close>, declared outside this file. Per section 6 the flags word of the
  preamble holds one presence bit for each sub-section (skin, physics convex, physics
  mesh, LOD 0 to 3); which bit stands for which is the argument \<open>layout\<close>.
\<close>

record flag_layout =
  skin_bit :: nat
  physics_convex_bit :: nat
  physics_mesh_bit :: nat
  lod_bit :: "nat \<Rightarrow> nat"

definition flag_if :: "bool \<Rightarrow> nat \<Rightarrow> U32" where
  "flag_if b n = (if b then push_bit n 1 else 0)"

definition getFlags :: "flag_layout \<Rightarrow> LLMeshHeader \<Rightarrow> U32" where
  "getFlags layout header =
     flag_if (mSkinInCache header) (skin_bit layout)
     OR flag_if (mPhysicsConvexInCache header) (physics_convex_bit layout)
     OR flag_if (mPhysicsMeshInCache header) (physics_mesh_bit layout)
     OR flag_if (lod_at (mLodInCache header) 0) (lod_bit layout 0)
     OR flag_if (lod_at (mLodInCache header) 1) (lod_bit layout 1)
     OR flag_if (lod_at (mLodInCache header) 2) (lod_bit layout 2)
     OR flag_if (lod_at (mLodInCache header) 3) (lod_bit layout 3)"

definition setFromFlags :: "flag_layout \<Rightarrow> U32 \<Rightarrow> LLMeshHeader \<Rightarrow> LLMeshHeader" where
  "setFromFlags layout flags header =
     header\<lparr>mSkinInCache := bit flags (skin_bit layout),
            mPhysicsConvexInCache := bit flags (physics_convex_bit layout),
            mPhysicsMeshInCache := bit flags (physics_mesh_bit layout),
            mLodInCache := LodArray (bit flags (lod_bit layout 0)) (bit flags (lod_bit layout 1))
                             (bit flags (lod_bit layout 2)) (bit flags (lod_bit layout 3))\<rparr>"

section \<open>LLMeshHandlerBase::onCompleted\<close>

text \<open>
  What the transport reports for a finished request: whether the status is a success,
  whether it is 206 Partial Content, the offset and length \<open>getRange\<close> returns (both 0
  when the response had no usable range header), the size of the body (a \<open>size_t\<close>,
  64 bits) and whether the copy buffer could be allocated.
\<close>

record HttpResponse =
  status_ok :: bool
  status_partial :: bool
  range_offset :: U32
  range_length :: U32
  body_size :: "64 word"
  copy_alloc_ok :: bool

datatype failure_status = HTTP_STATUS | HE_INV_CONTENT_RANGE_HDR | HE_BAD_ALLOC

text \<open>
  The calls \<open>onCompleted\<close> makes into the derived handler, in order:
  \<open>processFailure(status)\<close> and
  \<open>processData(body, body_offset, data, data_size)\<close>, the latter with its
  \<open>body_offset\<close>, whether \<open>data\<close> is non-null, and its \<open>data_size\<close>.
\<close>

datatype handler_call =
    ProcessFailure failure_status
  | ProcessData S32 bool S32

definition range_mismatch :: "U32 \<Rightarrow> U32 \<Rightarrow> 64 word \<Rightarrow> bool" where
  "range_mismatch offset requested data_size =
     (requested < offset
      \<or> ucast offset + data_size \<le> ucast requested
      \<or> data_size \<le> ucast (requested - offset))"

definition response_offset :: "U32 \<Rightarrow> HttpResponse \<Rightarrow> U32" where
  "response_offset requested response =
     (if status_partial response
      then (if range_offset response = 0 \<and> range_length response = 0
            then requested else range_offset response)
      else 0)"

definition onCompleted :: "U32 \<Rightarrow> HttpResponse \<Rightarrow> handler_call list" where
  "onCompleted requested response =
     (if \<not> status_ok response then [ProcessFailure HTTP_STATUS]
      else
        let data_size = body_size response in
        if 0 < data_size then
          let offset = response_offset requested response in
          if range_mismatch offset requested data_size
          then [ProcessFailure HE_INV_CONTENT_RANGE_HDR]
          else
            let body_offset = requested - offset in
            (if copy_alloc_ok response then [] else [ProcessFailure HE_BAD_ALLOC])
            @ [ProcessData body_offset (copy_alloc_ok response) (ucast data_size - body_offset)]
        else [ProcessData 0 False (ucast data_size - 0)])"

section \<open>Requests, handlers and results\<close>

text \<open>
  Of an \<open>LLVolumeParams\<close> only the mesh identifier (\<open>getSculptID\<close>) matters here.
  The request classes derive from \<open>RequestStats\<close>. Statistics counters
  (\<open>sMeshRequestCount\<close>, \<open>sCacheReads\<close>, \<open>sLODProcessing\<close>, the time-to-load
  metrics and the like), scores and log output are not part of the model.
\<close>

record LLVolumeParams =
  mSculptID :: LLUUID

definition getSculptID :: "LLVolumeParams \<Rightarrow> LLUUID" where
  "getSculptID p = mSculptID p"

record LODRequest = RequestStats +
  mMeshParams :: LLVolumeParams
  mLOD :: S32

record HeaderRequest = RequestStats +
  mHeaderParams :: LLVolumeParams

record UUIDBasedRequest = RequestStats +
  mId :: LLUUID

definition new_LODRequest :: "LLVolumeParams \<Rightarrow> S32 \<Rightarrow> LODRequest" where
  "new_LODRequest mesh_params lod =
     \<lparr>mRetries = 0, mTimer = \<lparr>mStarted = False, mExpiry = 0\<rparr>,
      mMeshParams = mesh_params, mLOD = lod\<rparr>"

definition new_HeaderRequest :: "LLVolumeParams \<Rightarrow> HeaderRequest" where
  "new_HeaderRequest mesh_params =
     \<lparr>mRetries = 0, mTimer = \<lparr>mStarted = False, mExpiry = 0\<rparr>,
      mHeaderParams = mesh_params\<rparr>"

definition new_UUIDBasedRequest :: "LLUUID \<Rightarrow> UUIDBasedRequest" where
  "new_UUIDBasedRequest mesh_id =
     \<lparr>mRetries = 0, mTimer = \<lparr>mStarted = False, mExpiry = 0\<rparr>, mId = mesh_id\<rparr>"

record LoadedMesh =
  mLoadedParams :: LLVolumeParams
  mLoadedLOD :: S32

text \<open>
  A decomposition result: the mesh it belongs to, the number of positions in its
  physics shape mesh (0 when cleared or never filled) and whether it was built from a
  decoded decomposition block.
\<close>

record Decomposition =
  mMeshID :: LLUUID
  mPhysicsShapeMesh :: nat
  mFromBlock :: bool

datatype EMeshProcessingResult =
  MESH_OK | MESH_NO_DATA | MESH_PARSE_FAILURE | MESH_INVALID | MESH_UNKNOWN

datatype HttpHandle = LLCORE_HTTP_HANDLE_INVALID | Handle nat

datatype handler_class =
    LLMeshHeaderHandler LLVolumeParams
  | LLMeshLODHandler LLVolumeParams S32
  | LLMeshSkinInfoHandler LLUUID
  | LLMeshDecompositionHandler LLUUID
  | LLMeshPhysicsShapeHandler LLUUID

record LLMeshHandlerBase =
  mClass :: handler_class
  mOffset :: U32
  mRequestedBytes :: U32
  mHttpHandle :: HttpHandle
  mProcessed :: bool

definition new_handler :: "handler_class \<Rightarrow> U32 \<Rightarrow> U32 \<Rightarrow> LLMeshHandlerBase" where
  "new_handler c offset requested_bytes =
     \<lparr>mClass = c, mOffset = offset, mRequestedBytes = requested_bytes,
      mHttpHandle = LLCORE_HTTP_HANDLE_INVALID, mProcessed = False\<rparr>"

text \<open>The sub-sections of an asset, and the one a handler was created to fetch.\<close>

datatype sub_section = SubHeader | SubLOD S32 | SubSkin | SubPhysicsConvex | SubPhysicsMesh

fun handler_target :: "handler_class \<Rightarrow> LLUUID \<times> sub_section" where
  "handler_target (LLMeshHeaderHandler p) = (getSculptID p, SubHeader)"
| "handler_target (LLMeshLODHandler p lod) = (getSculptID p, SubLOD lod)"
| "handler_target (LLMeshSkinInfoHandler i) = (i, SubSkin)"
| "handler_target (LLMeshDecompositionHandler i) = (i, SubPhysicsConvex)"
| "handler_target (LLMeshPhysicsShapeHandler i) = (i, SubPhysicsMesh)"

text \<open>
  The closures this file hands to other threads: the parse tasks \<open>fetchMeshLOD\<close> and
  \<open>fetchMeshSkinInfo\<close> post to the mesh thread pool (with the size of the buffer they
  own), and the skin-map erasure the registry posts to the worker's work queue.
\<close>

datatype pool_task =
    ParseCachedLOD LLVolumeParams S32 S32
  | ParseCachedSkin LLUUID S32

datatype work_item = EraseSkin LLUUID

type_synonym LLVOVolume = nat

record MeshLoadData =
  mVolumes :: "LLVOVolume list"

datatype PendingRequest =
    PendingRequestLOD LLVolumeParams S32
  | PendingRequestUUID LLUUID

section \<open>The state of the repository\<close>

text \<open>
  One record for the global \<open>gMeshRepo\<close>, its worker \<open>mThread\<close> and the cache files.
  The first group are members of \<open>LLMeshRepository\<close>, the second of
  \<open>LLMeshRepoThread\<close> (its skin map is \<open>mThreadSkinMap\<close> here, its thread pool's queue
  \<open>mMeshThreadPool\<close>). A skin-map entry of the registry is kept as its reference count,
  the map's own reference included. Every function below runs as one step: the model
  interleaves the threads at the level of whole calls.
\<close>

record MeshRepo =
  mLoadingMeshes :: "(LLUUID \<rightharpoonup> MeshLoadData) lod_array"
  mLoadingSkins :: "LLUUID \<rightharpoonup> MeshLoadData"
  mPendingRequests :: "PendingRequest list"
  mSkinMap :: "(LLUUID \<times> nat) list"
  mMeshHeader :: "LLUUID \<rightharpoonup> LLMeshHeader"
  mPendingLOD :: "LLUUID \<rightharpoonup> S32 lod_array"
  mLODReqQ :: "LODRequest list"
  mHeaderReqQ :: "HeaderRequest list"
  mSkinRequests :: "UUIDBasedRequest list"
  mHttpRequestSet :: "LLMeshHandlerBase list"
  mUnavailableQ :: "LODRequest list"
  mSkinUnavailableQ :: "UUIDBasedRequest list"
  mLoadedQ :: "LoadedMesh list"
  mSkinInfoQ :: "LLUUID list"
  mDecompositionQ :: "Decomposition list"
  mThreadSkinMap :: "LLUUID set"
  mWorkQueue :: "work_item list"
  mMeshThreadPool :: "pool_task list"
  mGetMeshCapability :: string
  mLegacyGetMeshCapability :: string
  mLegacyGetMesh2Capability :: string
  mLegacyGetMeshVersion :: int
  mCacheFiles :: "LLUUID \<rightharpoonup> U8 list"

definition empty_repo :: MeshRepo where
  "empty_repo =
     \<lparr>mLoadingMeshes = lod_fill Map.empty, mLoadingSkins = Map.empty,
      mPendingRequests = [], mSkinMap = [], mMeshHeader = Map.empty,
      mPendingLOD = Map.empty, mLODReqQ = [], mHeaderReqQ = [], mSkinRequests = [],
      mHttpRequestSet = [], mUnavailableQ = [], mSkinUnavailableQ = [], mLoadedQ = [],
      mSkinInfoQ = [], mDecompositionQ = [], mThreadSkinMap = {}, mWorkQueue = [],
      mMeshThreadPool = [], mGetMeshCapability = [], mLegacyGetMeshCapability = [],
      mLegacyGetMesh2Capability = [], mLegacyGetMeshVersion = 0,
      mCacheFiles = Map.empty\<rparr>"

text \<open>The outstanding HTTP handles for one sub-section of one mesh.\<close>

definition outstanding :: "MeshRepo \<Rightarrow> LLUUID \<Rightarrow> sub_section \<Rightarrow> nat" where
  "outstanding st mesh_id sub =
     length (filter (\<lambda>h. handler_target (mClass h) = (mesh_id, sub)) (mHttpRequestSet st))"

section \<open>The cache files\<close>

text \<open>
  Modelled from the spec: the class \<open>LLFileSystem\<close> is not in this file. Per section 4.2
  a cache file is one blob per asset: the preamble (version, header size, flags; three
  32-bit words) at bytes 0..11, then the header and the sub-sections. A file that does
  not exist has size 0; a read returns the bytes at the requested position, as many as
  the file has.
\<close>

definition file_getSize :: "MeshRepo \<Rightarrow> LLUUID \<Rightarrow> S32" where
  "file_getSize st mesh_id =
     (case mCacheFiles st mesh_id of None \<Rightarrow> 0 | Some bytes \<Rightarrow> of_nat (length bytes))"

definition file_read :: "MeshRepo \<Rightarrow> LLUUID \<Rightarrow> S32 \<Rightarrow> S32 \<Rightarrow> U8 list" where
  "file_read st mesh_id pos n =
     (case mCacheFiles st mesh_id of
        None \<Rightarrow> []
      | Some bytes \<Rightarrow> take (nat (sint n)) (drop (nat (sint pos)) bytes))"

text \<open>The three words of the preamble, each written in the byte order of the machine
  (least significant byte first on every platform the viewer builds for).\<close>

definition word_bytes :: "U32 \<Rightarrow> U8 list" where
  "word_bytes w = map (\<lambda>i. ucast (drop_bit (8 * i) w)) [0, 1, 2, 3]"

definition write_preamble :: "LLUUID \<Rightarrow> S32 \<Rightarrow> S32 \<Rightarrow> MeshRepo \<Rightarrow> MeshRepo" where
  "write_preamble mesh_id header_bytes flags st =
     (let old = (case mCacheFiles st mesh_id of None \<Rightarrow> [] | Some bytes \<Rightarrow> bytes);
          preamble = word_bytes CACHE_PREAMBLE_VERSION @ word_bytes header_bytes
                     @ word_bytes flags
      in st\<lparr>mCacheFiles := (mCacheFiles st)(mesh_id \<mapsto> preamble @ drop 12 old)\<rparr>)"

text \<open>\<open>buffer[i] == 0\<close> for every \<open>i < llmin(size, 1024)\<close>.\<close>

definition first_kilobyte_zero :: "U8 list \<Rightarrow> S32 \<Rightarrow> bool" where
  "first_kilobyte_zero buffer sz =
     list_all (\<lambda>b. b = 0) (take (nat (min (sint sz) 1024)) buffer)"

section \<open>The worker: parsing results\<close>

text \<open>
  The parsers (\<open>unpackVolumeFaces\<close>, \<open>unzip_llsd\<close>) are outside this file; what they
  answer is an argument of the functions that call them.
\<close>

text \<open>\<open>volume_ok\<close>: the volume unpacked and has at least one face.\<close>

definition lodReceived ::
  "bool \<Rightarrow> LLVolumeParams \<Rightarrow> S32 \<Rightarrow> bool \<Rightarrow> S32 \<Rightarrow> MeshRepo
   \<Rightarrow> EMeshProcessingResult \<times> MeshRepo" where
  "lodReceived volume_ok mesh_params lod data_present data_size st =
     (if \<not> data_present \<or> data_size = 0 then (MESH_NO_DATA, st)
      else if volume_ok
      then (MESH_OK,
            st\<lparr>mLoadedQ := mLoadedQ st @ [\<lparr>mLoadedParams = mesh_params, mLoadedLOD = lod\<rparr>]\<rparr>)
      else (MESH_UNKNOWN, st))"

text \<open>\<open>unzip_ok\<close>: the decoder returned \<open>ZR_OK\<close> without running out of memory.\<close>

definition skinInfoReceived ::
  "bool \<Rightarrow> LLUUID \<Rightarrow> S32 \<Rightarrow> MeshRepo \<Rightarrow> bool \<times> MeshRepo" where
  "skinInfoReceived unzip_ok mesh_id data_size st =
     (if 0 < sint data_size \<and> \<not> unzip_ok then (False, st)
      else (True, st\<lparr>mThreadSkinMap := insert mesh_id (mThreadSkinMap st),
                     mSkinInfoQ := mSkinInfoQ st @ [mesh_id]\<rparr>))"

definition decompositionReceived ::
  "bool \<Rightarrow> LLUUID \<Rightarrow> S32 \<Rightarrow> MeshRepo \<Rightarrow> bool \<times> MeshRepo" where
  "decompositionReceived unzip_ok mesh_id data_size st =
     (if 0 < sint data_size \<and> \<not> unzip_ok then (False, st)
      else (True,
            st\<lparr>mDecompositionQ := mDecompositionQ st
               @ [\<lparr>mMeshID = mesh_id, mPhysicsShapeMesh = 0, mFromBlock = True\<rparr>]\<rparr>))"

text \<open>\<open>unpacked\<close>: the number of positions the volume's faces give, if it unpacked.\<close>

definition physicsShapeReceived ::
  "nat option \<Rightarrow> LLUUID \<Rightarrow> bool \<Rightarrow> MeshRepo \<Rightarrow> EMeshProcessingResult \<times> MeshRepo" where
  "physicsShapeReceived unpacked mesh_id data_present st =
     (let positions = (if \<not> data_present then 0
                       else (case unpacked of Some n \<Rightarrow> n | None \<Rightarrow> 0))
      in (MESH_OK,
          st\<lparr>mDecompositionQ := mDecompositionQ st
             @ [\<lparr>mMeshID = mesh_id, mPhysicsShapeMesh = positions, mFromBlock = False\<rparr>]\<rparr>))"

section \<open>The worker: issuing requests\<close>

text \<open>
  \<open>constructUrl\<close>, with the text of the identifier left out of the URL: what the callers
  test is whether the URL is empty.
\<close>

definition constructUrl :: "bool \<Rightarrow> MeshRepo \<Rightarrow> string \<times> int" where
  "constructUrl region_loaded st =
     (if region_loaded then
        (let (res_url, res_version) =
               (if mGetMeshCapability st \<noteq> [] \<and> mLegacyGetMeshVersion st = 0
                then (mGetMeshCapability st, 0)
                else if mLegacyGetMesh2Capability st \<noteq> [] \<and> 1 < mLegacyGetMeshVersion st
                then (mLegacyGetMesh2Capability st, 2)
                else (mLegacyGetMeshCapability st, 1))
         in (if res_url \<noteq> [] then res_url @ ''/?mesh_id='' else res_url, res_version))
      else ([], 0))"

text \<open>
  What lies outside the worker in one fetch: whether the agent's region is loaded, whether
  the buffer for the cached bytes could be allocated, whether the thread pool accepted the
  parse task, what the parser answers when the bytes are parsed in line (for a physics
  shape: the positions it unpacks), and the handle \<open>getByteRange\<close> gets from the
  transport.
\<close>

record fetch_env =
  region_loaded :: bool
  buffer_allocated :: bool
  pool_accepted :: bool
  parse_succeeded :: bool
  physics_unpacked :: "nat option"
  transport_handle :: HttpHandle

text \<open>
  \<open>fetchMeshLOD\<close>. The result is \<open>None\<close> where the source reads \<open>mLodOffset[lod]\<close>
  with \<open>lod\<close> outside 0..3. The fetch functions are modelled for a worker whose
  mutexes exist: the early return on a null \<open>mHeaderMutex\<close> belongs to teardown.
\<close>

definition fetchMeshLOD ::
  "fetch_env \<Rightarrow> LLVolumeParams \<Rightarrow> S32 \<Rightarrow> MeshRepo \<Rightarrow> (bool \<times> MeshRepo) option" where
  "fetchMeshLOD env mesh_params lod st =
     (let mesh_id = getSculptID mesh_params in
      case mMeshHeader st mesh_id of
        None \<Rightarrow> Some (False, st)
      | Some header \<Rightarrow>
          let header_size = mHeaderSize header in
          if header_size \<noteq> 0 then
            if \<not> valid_lod lod then None
            else
              let version = mVersion header;
                  offset = header_size + lod_at (mLodOffset header) (lod_index lod);
                  sz = lod_at (mLodSize header) (lod_index lod);
                  in_cache = lod_at (mLodInCache header) (lod_index lod);
                  unavailable = st\<lparr>mUnavailableQ := mUnavailableQ st
                                      @ [new_LODRequest mesh_params lod]\<rparr>;
                  from_sim =
                    (if fst (constructUrl (region_loaded env) st) \<noteq> [] then
                       (let handler = new_handler (LLMeshLODHandler mesh_params lod) offset sz;
                            handle = transport_handle env
                        in if handle = LLCORE_HTTP_HANDLE_INVALID then (False, st)
                           else (True, st\<lparr>mHttpRequestSet := mHttpRequestSet st
                                   @ [handler\<lparr>mHttpHandle := handle\<rparr>]\<rparr>))
                     else (True, unavailable))
              in
              if sint version \<le> sint MAX_MESH_VERSION \<and> 0 \<le> sint offset \<and> 0 < sint sz then
                let disk_ofset = offset + CACHE_PREAMBLE_SIZE in
                if in_cache \<and> sint (disk_ofset + sz) \<le> sint (file_getSize st mesh_id) then
                  if \<not> buffer_allocated env then Some (True, unavailable)
                  else
                    let buffer = file_read st mesh_id disk_ofset sz in
                    if \<not> first_kilobyte_zero buffer sz then
                      if pool_accepted env
                      then Some (True, st\<lparr>mMeshThreadPool := mMeshThreadPool st
                                   @ [ParseCachedLOD mesh_params lod sz]\<rparr>)
                      else
                        (case lodReceived (parse_succeeded env) mesh_params lod True sz st of
                           (MESH_OK, st') \<Rightarrow> Some (True, st')
                         | (_, st') \<Rightarrow> Some from_sim)
                    else Some from_sim
                else Some from_sim
              else Some (True, unavailable)
          else Some (True, st))"

definition fetchMeshSkinInfo :: "fetch_env \<Rightarrow> LLUUID \<Rightarrow> MeshRepo \<Rightarrow> bool \<times> MeshRepo" where
  "fetchMeshSkinInfo env mesh_id st =
     (case mMeshHeader st mesh_id of
        None \<Rightarrow> (False, st)
      | Some header \<Rightarrow>
          let header_size = mHeaderSize header in
          if header_size \<noteq> 0 then
            let version = mVersion header;
                offset = header_size + mSkinOffset header;
                sz = mSkinSize header;
                in_cache = mSkinInCache header;
                unavailable = st\<lparr>mSkinUnavailableQ := mSkinUnavailableQ st
                                    @ [new_UUIDBasedRequest mesh_id]\<rparr>;
                from_sim =
                  (if fst (constructUrl (region_loaded env) st) \<noteq> [] then
                     (let handler = new_handler (LLMeshSkinInfoHandler mesh_id) offset sz;
                          handle = transport_handle env
                      in if handle = LLCORE_HTTP_HANDLE_INVALID then (False, st)
                         else (True, st\<lparr>mHttpRequestSet := mHttpRequestSet st
                                 @ [handler\<lparr>mHttpHandle := handle\<rparr>]\<rparr>))
                   else (True, unavailable))
            in
            if sint version \<le> sint MAX_MESH_VERSION \<and> 0 \<le> sint offset \<and> 0 < sint sz then
              let disk_ofset = offset + CACHE_PREAMBLE_SIZE in
              if in_cache \<and> sint (disk_ofset + sz) \<le> sint (file_getSize st mesh_id) then
                if \<not> buffer_allocated env then (True, unavailable)
                else
                  let buffer = file_read st mesh_id disk_ofset sz in
                  if \<not> first_kilobyte_zero buffer sz then
                    if pool_accepted env
                    then (True, st\<lparr>mMeshThreadPool := mMeshThreadPool st
                                 @ [ParseCachedSkin mesh_id sz]\<rparr>)
                    else
                      (case skinInfoReceived (parse_succeeded env) mesh_id sz st of
                         (True, st') \<Rightarrow> (True, st')
                       | (False, st') \<Rightarrow> from_sim)
                  else from_sim
              else from_sim
            else (True, unavailable)
          else (True, st))"

definition fetchMeshDecomposition ::
  "fetch_env \<Rightarrow> LLUUID \<Rightarrow> MeshRepo \<Rightarrow> bool \<times> MeshRepo" where
  "fetchMeshDecomposition env mesh_id st =
     (case mMeshHeader st mesh_id of
        None \<Rightarrow> (False, st)
      | Some header \<Rightarrow>
          let header_size = mHeaderSize header in
          if header_size \<noteq> 0 then
            let version = mVersion header;
                offset = header_size + mPhysicsConvexOffset header;
                sz = mPhysicsConvexSize header;
                in_cache = mPhysicsConvexInCache header;
                from_sim =
                  (if fst (constructUrl (region_loaded env) st) \<noteq> [] then
                     (let handler = new_handler (LLMeshDecompositionHandler mesh_id) offset sz;
                          handle = transport_handle env
                      in if handle = LLCORE_HTTP_HANDLE_INVALID then (False, st)
                         else (True, st\<lparr>mHttpRequestSet := mHttpRequestSet st
                                 @ [handler\<lparr>mHttpHandle := handle\<rparr>]\<rparr>))
                   else (True, st))
            in
            if sint version \<le> sint MAX_MESH_VERSION \<and> 0 \<le> sint offset \<and> 0 < sint sz then
              let disk_ofset = offset + CACHE_PREAMBLE_SIZE in
              if in_cache \<and> sint (disk_ofset + sz) \<le> sint (file_getSize st mesh_id) then
                if \<not> buffer_allocated env then (True, st)
                else
                  let buffer = file_read st mesh_id disk_ofset sz in
                  if \<not> first_kilobyte_zero buffer sz then
                    (case decompositionReceived (parse_succeeded env) mesh_id sz st of
                       (True, st') \<Rightarrow> (True, st')
                     | (False, st') \<Rightarrow> from_sim)
                  else from_sim
              else from_sim
            else (True, st)
          else (True, st))"

definition fetchMeshPhysicsShape ::
  "fetch_env \<Rightarrow> LLUUID \<Rightarrow> MeshRepo \<Rightarrow> bool \<times> MeshRepo" where
  "fetchMeshPhysicsShape env mesh_id st =
     (case mMeshHeader st mesh_id of
        None \<Rightarrow> (False, st)
      | Some header \<Rightarrow>
          let header_size = mHeaderSize header in
          if header_size \<noteq> 0 then
            let version = mVersion header;
                offset = header_size + mPhysicsMeshOffset header;
                sz = mPhysicsMeshSize header;
                in_cache = mPhysicsMeshInCache header;
                from_sim =
                  (if fst (constructUrl (region_loaded env) st) \<noteq> [] then
                     (let handler = new_handler (LLMeshPhysicsShapeHandler mesh_id) offset sz;
                          handle = transport_handle env
                      in if handle = LLCORE_HTTP_HANDLE_INVALID then (False, st)
                         else (True, st\<lparr>mHttpRequestSet := mHttpRequestSet st
                                 @ [handler\<lparr>mHttpHandle := handle\<rparr>]\<rparr>))
                   else (True, st))
            in
            if sint version \<le> sint MAX_MESH_VERSION \<and> 0 \<le> sint offset \<and> 0 < sint sz then
              let disk_ofset = offset + CACHE_PREAMBLE_SIZE in
              if in_cache \<and> sint (disk_ofset + sz) \<le> sint (file_getSize st mesh_id) then
                if \<not> buffer_allocated env then (True, st)
                else
                  let buffer = file_read st mesh_id disk_ofset sz in
                  if \<not> first_kilobyte_zero buffer sz then
                    (case physicsShapeReceived (physics_unpacked env) mesh_id True st of
                       (MESH_OK, st') \<Rightarrow> (True, st')
                     | (_, st') \<Rightarrow> from_sim)
                  else from_sim
              else from_sim
            else
              (True, snd (physicsShapeReceived (physics_unpacked env) mesh_id False st))
          else (True, st))"

section \<open>The worker: queueing requests\<close>

definition hasHeader :: "MeshRepo \<Rightarrow> LLUUID \<Rightarrow> bool" where
  "hasHeader st mesh_id = (mMeshHeader st mesh_id \<noteq> None)"

definition loadMeshSkinInfo :: "LLUUID \<Rightarrow> MeshRepo \<Rightarrow> MeshRepo" where
  "loadMeshSkinInfo mesh_id st =
     st\<lparr>mSkinRequests := mSkinRequests st @ [new_UUIDBasedRequest mesh_id]\<rparr>"

text \<open>
  \<open>loadMeshLOD\<close>. With no header and no pending entry the source executes
  \<open>array[lod]++\<close> unchecked: the result is \<open>None\<close> there when \<open>lod\<close> is outside
  0..3.
\<close>

definition loadMeshLOD :: "LLVolumeParams \<Rightarrow> S32 \<Rightarrow> MeshRepo \<Rightarrow> MeshRepo option" where
  "loadMeshLOD mesh_params lod st =
     (let mesh_id = getSculptID mesh_params in
      if hasHeader st mesh_id
      then Some (st\<lparr>mLODReqQ := mLODReqQ st @ [new_LODRequest mesh_params lod]\<rparr>)
      else
        (case mPendingLOD st mesh_id of
           Some pending \<Rightarrow>
             if valid_lod lod
             then Some (st\<lparr>mPendingLOD := (mPendingLOD st)(mesh_id \<mapsto>
                          lod_upd pending (lod_index lod)
                            (lod_at pending (lod_index lod) + 1))\<rparr>)
             else Some st
         | None \<Rightarrow>
             if valid_lod lod
             then Some (st\<lparr>mPendingLOD := (mPendingLOD st)(mesh_id \<mapsto>
                          lod_upd (lod_fill 0) (lod_index lod) 1),
                        mHeaderReqQ := mHeaderReqQ st @ [new_HeaderRequest mesh_params]\<rparr>)
             else None))"

section \<open>The worker: parse tasks on the thread pool\<close>

text \<open>
  The closures \<open>fetchMeshLOD\<close> and \<open>fetchMeshSkinInfo\<close> post. \<open>cache_writable\<close>
  stands for \<open>file.getMaxSize() >= CACHE_PREAMBLE_SIZE\<close>.
\<close>

record task_env =
  shutting_down :: bool
  task_parse_succeeded :: bool
  cache_writable :: bool

definition mark_all_missing :: "LLMeshHeader \<Rightarrow> LLMeshHeader" where
  "mark_all_missing header =
     header\<lparr>mSkinInCache := False, mPhysicsConvexInCache := False,
            mPhysicsMeshInCache := False, mLodInCache := lod_fill False\<rparr>"

text \<open>The part both closures share: on a cache mismatch every presence flag of the stored
  header is cleared and the preamble is written again.\<close>

definition cache_mismatch ::
  "flag_layout \<Rightarrow> task_env \<Rightarrow> LLUUID \<Rightarrow> MeshRepo \<Rightarrow> MeshRepo" where
  "cache_mismatch layout env mesh_id st =
     (case mMeshHeader st mesh_id of
        None \<Rightarrow> st
      | Some header0 \<Rightarrow>
          let header = mark_all_missing header0;
              header_size = mHeaderSize header;
              header_flags = getFlags layout header;
              st1 = st\<lparr>mMeshHeader := (mMeshHeader st)(mesh_id \<mapsto> header)\<rparr>
          in if 0 < sint header_size \<and> cache_writable env
             then write_preamble mesh_id header_size header_flags st1
             else st1)"

fun run_pool_task ::
  "flag_layout \<Rightarrow> task_env \<Rightarrow> pool_task \<Rightarrow> MeshRepo \<Rightarrow> MeshRepo" where
  "run_pool_task layout env (ParseCachedLOD params lod sz) st =
     (if shutting_down env then st
      else
        (case lodReceived (task_parse_succeeded env) params lod True sz st of
           (MESH_OK, st') \<Rightarrow> st'
         | (_, st') \<Rightarrow>
             (let st1 = cache_mismatch layout env (getSculptID params) st'
              in st1\<lparr>mLODReqQ := mLODReqQ st1 @ [new_LODRequest params lod]\<rparr>)))"
| "run_pool_task layout env (ParseCachedSkin mesh_id sz) st =
     (if shutting_down env then st
      else
        (case skinInfoReceived (task_parse_succeeded env) mesh_id sz st of
           (True, st') \<Rightarrow> st'
         | (False, st') \<Rightarrow>
             (let st1 = cache_mismatch layout env mesh_id st'
              in st1\<lparr>mSkinRequests := mSkinRequests st1 @ [new_UUIDBasedRequest mesh_id]\<rparr>)))"

section \<open>The worker: headerReceived\<close>

text \<open>
  What lies outside \<open>headerReceived\<close>: the bytes \<open>strip_deprecated_header\<close> takes off
  and the size that remains, whether the decoder succeeds and yields a map, the header
  record \<open>fromLLSD\<close> fills from it, the position of the stream after decoding, a
  header as its default constructor leaves it, the layout of the flags word, and the
  answers of the skin and LOD parsers on the bytes of the window.
\<close>

record header_env =
  stripped_bytes :: int
  stripped_size :: S32
  decode_ok :: bool
  decoded_is_map :: bool
  decoded_header :: LLMeshHeader
  stream_pos :: S32
  blank_header :: LLMeshHeader
  flag_bits :: flag_layout
  skin_unzip_ok :: bool
  lod_volume_ok :: "nat \<Rightarrow> bool"

text \<open>\<open>size > 0 && header_size + offset + size < data_size\<close>, with \<open>header_size\<close> a
  64-bit \<open>llssize\<close>: the sum of three 32-bit values does not wrap.\<close>

definition in_window :: "int \<Rightarrow> S32 \<Rightarrow> S32 \<Rightarrow> S32 \<Rightarrow> bool" where
  "in_window header_size offset sz data_size =
     (0 < sint sz \<and> header_size + sint offset + sint sz < sint data_size)"

definition flags_from_window :: "int \<Rightarrow> S32 \<Rightarrow> LLMeshHeader \<Rightarrow> LLMeshHeader" where
  "flags_from_window header_size data_size header =
     (let fits = (\<lambda>offset sz. in_window header_size offset sz data_size);
          lod_in = (\<lambda>i. if fits (lod_at (mLodOffset header) i) (lod_at (mLodSize header) i)
                         then True else lod_at (mLodInCache header) i)
      in header\<lparr>
           mSkinInCache :=
             (if fits (mSkinOffset header) (mSkinSize header) then True
              else mSkinInCache header),
           mPhysicsConvexInCache :=
             (if fits (mPhysicsConvexOffset header) (mPhysicsConvexSize header) then True
              else mPhysicsConvexInCache header),
           mPhysicsMeshInCache :=
             (if fits (mPhysicsMeshOffset header) (mPhysicsMeshSize header) then True
              else mPhysicsMeshInCache header),
           mLodInCache := LodArray (lod_in 0) (lod_in 1) (lod_in 2) (lod_in 3)\<rparr>)"

text \<open>
  The first half of \<open>headerReceived\<close>: the header to store, the local \<open>header_size\<close>
  and \<open>data_size\<close>, and the locals \<open>skin_offset\<close>, \<open>skin_size\<close>, \<open>lod_offset\<close>
  and \<open>lod_size\<close> (initialised \<open>{ -1 }\<close>: \<open>-1\<close> followed by zeros). \<open>Inl\<close> is the
  early return of a failed decode.
\<close>

record header_locals =
  hl_header :: LLMeshHeader
  hl_header_size :: int
  hl_data_size :: S32
  hl_skin_offset :: S32
  hl_skin_size :: S32
  hl_lod_offset :: "S32 lod_array"
  hl_lod_size :: "S32 lod_array"

definition parse_header ::
  "header_env \<Rightarrow> S32 \<Rightarrow> U32 \<Rightarrow> EMeshProcessingResult + header_locals" where
  "parse_header env data_size flags =
     (let untouched = (\<lambda>header hs ds.
            \<lparr>hl_header = header, hl_header_size = hs, hl_data_size = ds,
             hl_skin_offset = - 1, hl_skin_size = - 1,
             hl_lod_offset = LodArray (- 1) 0 0 0, hl_lod_size = LodArray (- 1) 0 0 0\<rparr>)
      in
      if 0 < sint data_size then
        if \<not> decode_ok env then Inl MESH_PARSE_FAILURE
        else if \<not> decoded_is_map env then Inl MESH_INVALID
        else
          let header = decoded_header env;
              ds = stripped_size env in
          if sint MAX_MESH_VERSION < sint (mVersion header)
          then Inr (untouched (header\<lparr>m404 := True\<rparr>) (stripped_bytes env) ds)
          else
            (case getActualMeshLOD header 0 of (actual, header') \<Rightarrow>
               if 0 \<le> sint actual then
                 let header1 = header'\<lparr>mHeaderSize := stream_pos env\<rparr>;
                     header_size = stripped_bytes env + sint (mHeaderSize header1);
                     header2 = (if flags \<noteq> 0 then setFromFlags (flag_bits env) flags header1
                                else flags_from_window header_size ds header1)
                 in Inr \<lparr>hl_header = header2, hl_header_size = header_size,
                         hl_data_size = ds,
                         hl_skin_offset = mSkinOffset header1,
                         hl_skin_size = mSkinSize header1,
                         hl_lod_offset = mLodOffset header1,
                         hl_lod_size = mLodSize header1\<rparr>
               else Inr (untouched header' (stripped_bytes env) ds))
      else Inr (untouched ((blank_header env)\<lparr>m404 := True\<rparr>) 0 data_size))"

text \<open>The two tests for bytes already in hand: \<open>offset + skin_size < data_size\<close> for
  the skin, \<open>offset + lod_size[i] <= data_size\<close> for a LOD, with
  \<open>S32 offset = (S32)header_size + ...\<close>, all in 32 bits.\<close>

definition skin_in_hand :: "header_locals \<Rightarrow> bool" where
  "skin_in_hand l =
     (sint (of_int (hl_header_size l) + hl_skin_offset l + hl_skin_size l)
        < sint (hl_data_size l))"

definition lod_in_hand :: "header_locals \<Rightarrow> nat \<Rightarrow> bool" where
  "lod_in_hand l i =
     (sint (of_int (hl_header_size l) + lod_at (hl_lod_offset l) i + lod_at (hl_lod_size l) i)
        \<le> sint (hl_data_size l))"

definition request_skin_info ::
  "header_env \<Rightarrow> header_locals \<Rightarrow> LLUUID \<Rightarrow> MeshRepo \<Rightarrow> MeshRepo" where
  "request_skin_info env l mesh_id st =
     (if 0 \<le> sint (hl_skin_offset l) \<and> 0 < sint (hl_skin_size l) then
        let st1 = (if mLoadingSkins st mesh_id = None
                   then st\<lparr>mLoadingSkins := (mLoadingSkins st)(mesh_id \<mapsto> \<lparr>mVolumes = []\<rparr>)\<rparr>
                   else st);
            (request_skin, st2) =
               (if skin_in_hand l
                then (case skinInfoReceived (skin_unzip_ok env) mesh_id (hl_skin_size l) st1 of
                        (received, st') \<Rightarrow> (\<not> received, st'))
                else (True, st1))
        in if request_skin
           then st2\<lparr>mSkinRequests := mSkinRequests st2 @ [new_UUIDBasedRequest mesh_id]\<rparr>
           else st2
      else st)"

definition pending_lod_step ::
  "header_env \<Rightarrow> header_locals \<Rightarrow> LLVolumeParams \<Rightarrow> S32 lod_array \<Rightarrow> nat
   \<Rightarrow> MeshRepo \<Rightarrow> MeshRepo" where
  "pending_lod_step env l mesh_params pending_lods i st =
     (if 0 < sint (lod_at pending_lods i) \<and> 0 < sint (lod_at (hl_lod_size l) i) then
        let (request_lod, st1) =
               (if lod_in_hand l i
                then (case lodReceived (lod_volume_ok env i) mesh_params (of_nat i) True
                             (lod_at (hl_lod_size l) i) st of
                        (res, st') \<Rightarrow> (res \<noteq> MESH_OK, st'))
                else (True, st))
        in if request_lod
           then st1\<lparr>mLODReqQ := mLODReqQ st1 @ [new_LODRequest mesh_params (of_nat i)]\<rparr>
           else st1
      else st)"

fun pending_lods_loop ::
  "header_env \<Rightarrow> header_locals \<Rightarrow> LLVolumeParams \<Rightarrow> S32 lod_array \<Rightarrow> nat list
   \<Rightarrow> MeshRepo \<Rightarrow> MeshRepo" where
  "pending_lods_loop env l mesh_params pending_lods [] st = st"
| "pending_lods_loop env l mesh_params pending_lods (i # is) st =
     pending_lods_loop env l mesh_params pending_lods is
       (pending_lod_step env l mesh_params pending_lods i st)"

definition headerReceived ::
  "header_env \<Rightarrow> LLVolumeParams \<Rightarrow> S32 \<Rightarrow> U32 \<Rightarrow> MeshRepo
   \<Rightarrow> EMeshProcessingResult \<times> MeshRepo" where
  "headerReceived env mesh_params data_size flags st =
     (let mesh_id = getSculptID mesh_params in
      case parse_header env data_size flags of
        Inl failure \<Rightarrow> (failure, st)
      | Inr l \<Rightarrow>
          let st1 = st\<lparr>mMeshHeader := (mMeshHeader st)(mesh_id \<mapsto> hl_header l)\<rparr>;
              st2 = request_skin_info env l mesh_id st1
          in (case mPendingLOD st2 mesh_id of
                None \<Rightarrow> (MESH_OK, st2)
              | Some pending_lods \<Rightarrow>
                  (MESH_OK,
                   pending_lods_loop env l mesh_params pending_lods [0, 1, 2, 3]
                     (st2\<lparr>mPendingLOD := (mPendingLOD st2)(mesh_id := None)\<rparr>))))"

text \<open>
  The tests of \<open>headerReceived\<close>, read on the header it stores. For a header stored
  without the 404 mark the locals \<open>skin_offset\<close>, \<open>skin_size\<close>, \<open>lod_offset\<close> and
  \<open>lod_size\<close> are copies of its fields, \<open>header_size\<close> is its \<open>mHeaderSize\<close> plus the
  bytes of the deprecated prefix that were stripped, and \<open>data_size\<close> is the size left
  after stripping. The skin is declared (\<open>skin_offset >= 0 && skin_size > 0\<close>), a LOD is
  wanted (\<open>pending_lods[i] > 0 && lod_size[i] > 0\<close>, nothing being pending when the
  table has no entry), and a sub-section is served from the bytes in hand when they hold
  it (\<open>offset + skin_size < data_size\<close>, \<open>offset + lod_size[i] <= data_size\<close>) and the
  parser accepts them.
\<close>

definition window_header_size :: "header_env \<Rightarrow> LLMeshHeader \<Rightarrow> int" where
  "window_header_size env header = stripped_bytes env + sint (mHeaderSize header)"

definition skin_declared :: "LLMeshHeader \<Rightarrow> bool" where
  "skin_declared header = (0 \<le> sint (mSkinOffset header) \<and> 0 < sint (mSkinSize header))"

definition skin_in_window :: "header_env \<Rightarrow> LLMeshHeader \<Rightarrow> bool" where
  "skin_in_window env header =
     (sint (of_int (window_header_size env header) + mSkinOffset header + mSkinSize header)
        < sint (stripped_size env))"

definition skin_served :: "header_env \<Rightarrow> LLMeshHeader \<Rightarrow> bool" where
  "skin_served env header = (skin_in_window env header \<and> skin_unzip_ok env)"

definition pending_count :: "MeshRepo \<Rightarrow> LLUUID \<Rightarrow> nat \<Rightarrow> S32" where
  "pending_count st mesh_id i =
     (case mPendingLOD st mesh_id of None \<Rightarrow> 0 | Some pending_lods \<Rightarrow> lod_at pending_lods i)"

definition lod_wanted :: "MeshRepo \<Rightarrow> LLUUID \<Rightarrow> LLMeshHeader \<Rightarrow> nat \<Rightarrow> bool" where
  "lod_wanted st mesh_id header i =
     (0 < sint (pending_count st mesh_id i) \<and> 0 < sint (lod_at (mLodSize header) i))"

definition lod_in_window :: "header_env \<Rightarrow> LLMeshHeader \<Rightarrow> nat \<Rightarrow> bool" where
  "lod_in_window env header i =
     (sint (of_int (window_header_size env header) + lod_at (mLodOffset header) i
              + lod_at (mLodSize header) i)
        \<le> sint (stripped_size env))"

definition lod_served :: "header_env \<Rightarrow> LLMeshHeader \<Rightarrow> nat \<Rightarrow> bool" where
  "lod_served env header i = (lod_in_window env header i \<and> lod_volume_ok env i)"

section \<open>The worker: the skin section of the run loop\<close>

text \<open>
  The first block of \<open>LLMeshRepoThread::run\<close>, entered while the number of outstanding
  handles is below \<open>sRequestHighWater\<close>: every request popped is kept for later when it
  is delayed, fetched otherwise, and after a failed fetch re-queued with its time updated
  or moved to \<open>mSkinUnavailableQ\<close>. The k-th fetch of the pass meets the outside world
  \<open>envs k\<close>. The queue is the argument the recursion runs down;
  \<open>mSkinRequests\<close> is written when the loop ends, by which time the requests kept in
  \<open>incomplete\<close> have been pushed back behind what was left.
\<close>

fun skin_requests_loop ::
  "(nat \<Rightarrow> fetch_env) \<Rightarrow> real \<Rightarrow> nat \<Rightarrow> nat \<Rightarrow> UUIDBasedRequest list
   \<Rightarrow> UUIDBasedRequest list \<Rightarrow> MeshRepo \<Rightarrow> MeshRepo" where
  "skin_requests_loop envs now high_water k [] incomplete st =
     st\<lparr>mSkinRequests := incomplete\<rparr>"
| "skin_requests_loop envs now high_water k (req # rest) incomplete st =
     (if \<not> length (mHttpRequestSet st) < high_water
      then st\<lparr>mSkinRequests := (req # rest) @ incomplete\<rparr>
      else if isDelayed now req
      then skin_requests_loop envs now high_water k rest (incomplete @ [req]) st
      else
        (case fetchMeshSkinInfo (envs k) (mId req) st of
           (True, st') \<Rightarrow> skin_requests_loop envs now high_water (Suc k) rest incomplete st'
         | (False, st') \<Rightarrow>
             if canRetry req
             then skin_requests_loop envs now high_water (Suc k) rest
                    (incomplete @ [updateTime now req]) st'
             else skin_requests_loop envs now high_water (Suc k) rest incomplete
                    (st'\<lparr>mSkinUnavailableQ := mSkinUnavailableQ st' @ [req]\<rparr>)))"

definition run_skin_requests ::
  "(nat \<Rightarrow> fetch_env) \<Rightarrow> real \<Rightarrow> nat \<Rightarrow> MeshRepo \<Rightarrow> MeshRepo" where
  "run_skin_requests envs now high_water st =
     (if length (mHttpRequestSet st) < high_water \<and> mSkinRequests st \<noteq> []
      then skin_requests_loop envs now high_water 0 (mSkinRequests st) [] st
      else st)"

text \<open>\<open>mWorkQueue.runFor\<close>: the closures the time budget lets through, in order.\<close>

fun run_work_item :: "work_item \<Rightarrow> MeshRepo \<Rightarrow> MeshRepo" where
  "run_work_item (EraseSkin mesh_id) st =
     st\<lparr>mThreadSkinMap := mThreadSkinMap st - {mesh_id}\<rparr>"

definition run_work_queue :: "nat \<Rightarrow> MeshRepo \<Rightarrow> MeshRepo" where
  "run_work_queue budget st =
     (let st1 = foldl (\<lambda>s w. run_work_item w s) st (take budget (mWorkQueue st))
      in st1\<lparr>mWorkQueue := drop budget (mWorkQueue st)\<rparr>)"

section \<open>The registry\<close>

text \<open>
  \<open>loadMesh\<close>. What the volume manager knows is outside: whether the object has a volume
  with a LOD group, and which LODs of the group are loaded with faces. The call
  \<open>metricsProgress(1)\<close> at the head of the function feeds the time-to-load statistics
  only, which are left out like the other counters.
\<close>

record lod_group_env =
  has_lod_group :: bool
  lod_loaded :: "S32 \<Rightarrow> bool"

definition add_volume :: "LLVOVolume \<Rightarrow> MeshLoadData \<Rightarrow> MeshLoadData" where
  "add_volume vobj d =
     (if vobj \<in> set (mVolumes d) then d else d\<lparr>mVolumes := mVolumes d @ [vobj]\<rparr>)"

definition best_available_lod :: "lod_group_env \<Rightarrow> S32 \<Rightarrow> S32 \<Rightarrow> S32" where
  "best_available_lod env new_lod last_lod =
     (if has_lod_group env then
        if 0 \<le> sint last_lod \<and> lod_loaded env last_lod then last_lod
        else
          (case find (\<lambda>i. lod_loaded env (of_nat i)) (rev [0..<lod_index new_lod]) of
             Some i \<Rightarrow> of_nat i
           | None \<Rightarrow>
              (case find (\<lambda>i. lod_loaded env (of_nat i))
                      [Suc (lod_index new_lod)..<NUM_LODS] of
                 Some i \<Rightarrow> of_nat i
               | None \<Rightarrow> new_lod))
      else new_lod)"

definition loadMesh ::
  "lod_group_env \<Rightarrow> LLVOVolume \<Rightarrow> LLVolumeParams \<Rightarrow> S32 \<Rightarrow> S32 \<Rightarrow> MeshRepo
   \<Rightarrow> S32 \<times> MeshRepo" where
  "loadMesh env vobj mesh_params new_lod last_lod st =
     (if sint new_lod < 0 \<or> int NUM_LODS \<le> sint new_lod then (new_lod, st)
      else
        let mesh_id = getSculptID mesh_params;
            loading = lod_at (mLoadingMeshes st) (lod_index new_lod);
            st1 =
              (case loading mesh_id of
                 Some d \<Rightarrow>
                   st\<lparr>mLoadingMeshes := lod_upd (mLoadingMeshes st) (lod_index new_lod)
                        (loading(mesh_id \<mapsto> add_volume vobj d))\<rparr>
               | None \<Rightarrow>
                   st\<lparr>mPendingRequests := mPendingRequests st
                        @ [PendingRequestLOD mesh_params new_lod],
                      mLoadingMeshes := lod_upd (mLoadingMeshes st) (lod_index new_lod)
                        (loading(mesh_id \<mapsto> \<lparr>mVolumes = [vobj]\<rparr>))\<rparr>)
        in (best_available_lod env new_lod last_lod, st1))"

text \<open>\<open>getSkinInfo\<close>: whether a cached skin is returned, and the state.\<close>

definition getSkinInfo :: "LLUUID \<Rightarrow> LLVOVolume option \<Rightarrow> MeshRepo \<Rightarrow> bool \<times> MeshRepo" where
  "getSkinInfo mesh_id requesting_obj st =
     (if mesh_id \<noteq> 0 then
        if map_of (mSkinMap st) mesh_id \<noteq> None then (True, st)
        else
          (case requesting_obj of
             None \<Rightarrow> (False, st)
           | Some obj \<Rightarrow>
               (case mLoadingSkins st mesh_id of
                  Some d \<Rightarrow>
                    (False, st\<lparr>mLoadingSkins := (mLoadingSkins st)(mesh_id \<mapsto>
                                  add_volume obj d)\<rparr>)
                | None \<Rightarrow>
                    (False, st\<lparr>mLoadingSkins := (mLoadingSkins st)(mesh_id \<mapsto>
                                  \<lparr>mVolumes = [obj]\<rparr>),
                                mPendingRequests := mPendingRequests st
                                  @ [PendingRequestUUID mesh_id]\<rparr>)))
      else (False, st))"

text \<open>
  The part of \<open>notifyLoadedMeshes\<close> that feeds pending requests to the worker: the loop
  \<open>while (!mPendingRequests.empty() && push_count > 0)\<close>. The partial sort by score
  that precedes it, when there are more requests than \<open>push_count\<close>, is the argument
  \<open>by_score\<close>.
\<close>

fun push_pending :: "nat \<Rightarrow> MeshRepo \<Rightarrow> MeshRepo option" where
  "push_pending 0 st = Some st"
| "push_pending (Suc push_count) st =
     (case mPendingRequests st of
        [] \<Rightarrow> Some st
      | req # rest \<Rightarrow>
          (case (case req of
                   PendingRequestLOD mesh_params lod \<Rightarrow> loadMeshLOD mesh_params lod st
                 | PendingRequestUUID mesh_id \<Rightarrow> Some (loadMeshSkinInfo mesh_id st)) of
             None \<Rightarrow> None
           | Some st1 \<Rightarrow> push_pending push_count (st1\<lparr>mPendingRequests := rest\<rparr>)))"

definition feed_pending_requests ::
  "(PendingRequest list \<Rightarrow> PendingRequest list) \<Rightarrow> int \<Rightarrow> int \<Rightarrow> MeshRepo
   \<Rightarrow> MeshRepo option" where
  "feed_pending_requests by_score active_count high_water st =
     (if active_count < high_water then
        let push_count = nat (high_water - active_count);
            st1 = (if push_count < length (mPendingRequests st)
                   then st\<lparr>mPendingRequests := by_score (mPendingRequests st)\<rparr> else st)
        in push_pending push_count st1
      else Some st)"

text \<open>
  The eviction pass of \<open>notifyLoadedMeshes\<close>, run when \<open>mSkinInfoCullTimer\<close> has
  expired (every 10 seconds): the loop over \<open>mSkinMap\<close>.
\<close>

fun cull_skin_entry :: "LLUUID \<times> nat \<Rightarrow> MeshRepo \<Rightarrow> MeshRepo" where
  "cull_skin_entry (mesh_id, num_refs) st =
     (let st1 = (if num_refs = 1
                 then st\<lparr>mSkinMap := filter (\<lambda>e. fst e \<noteq> mesh_id) (mSkinMap st)\<rparr>
                 else st)
      in st1\<lparr>mWorkQueue := mWorkQueue st1 @ [EraseSkin mesh_id]\<rparr>)"

definition cull_skin_info :: "MeshRepo \<Rightarrow> MeshRepo" where
  "cull_skin_info st = foldl (\<lambda>s e. cull_skin_entry e s) st (mSkinMap st)"

section \<open>Cached bytes that are all zero\<close>

text \<open>
  The conditions under which \<open>fetchMeshLOD\<close> reads the cached bytes of a LOD and finds
  the first kilobyte all zero: the header is stored with a size, the LOD is valid and
  marked as cached, the file is long enough, the buffer was allocated, and the bytes
  read fail the test. The same for the skin in \<open>fetchMeshSkinInfo\<close>.
\<close>

definition cached_lod_reads_zero ::
  "fetch_env \<Rightarrow> LLVolumeParams \<Rightarrow> S32 \<Rightarrow> MeshRepo \<Rightarrow> bool" where
  "cached_lod_reads_zero env mesh_params lod st =
     (case mMeshHeader st (getSculptID mesh_params) of
        None \<Rightarrow> False
      | Some header \<Rightarrow>
          (let offset = mHeaderSize header + lod_at (mLodOffset header) (lod_index lod);
               sz = lod_at (mLodSize header) (lod_index lod);
               disk_ofset = offset + CACHE_PREAMBLE_SIZE
           in mHeaderSize header \<noteq> 0 \<and> valid_lod lod
              \<and> sint (mVersion header) \<le> sint MAX_MESH_VERSION
              \<and> 0 \<le> sint offset \<and> 0 < sint sz
              \<and> lod_at (mLodInCache header) (lod_index lod)
              \<and> sint (disk_ofset + sz) \<le> sint (file_getSize st (getSculptID mesh_params))
              \<and> buffer_allocated env
              \<and> first_kilobyte_zero
                    (file_read st (getSculptID mesh_params) disk_ofset sz) sz))"

definition cached_skin_reads_zero :: "fetch_env \<Rightarrow> LLUUID \<Rightarrow> MeshRepo \<Rightarrow> bool" where
  "cached_skin_reads_zero env mesh_id st =
     (case mMeshHeader st mesh_id of
        None \<Rightarrow> False
      | Some header \<Rightarrow>
          (let offset = mHeaderSize header + mSkinOffset header;
               sz = mSkinSize header;
               disk_ofset = offset + CACHE_PREAMBLE_SIZE
           in mHeaderSize header \<noteq> 0
              \<and> sint (mVersion header) \<le> sint MAX_MESH_VERSION
              \<and> 0 \<le> sint offset \<and> 0 < sint sz
              \<and> mSkinInCache header
              \<and> sint (disk_ofset + sz) \<le> sint (file_getSize st mesh_id)
              \<and> buffer_allocated env
              \<and> first_kilobyte_zero (file_read st mesh_id disk_ofset sz) sz))"

text \<open>Whether a fetch that turns to the simulator gets a request out: the region offers a
  capability URL and the transport returns a valid handle.\<close>

definition request_goes_out :: "fetch_env \<Rightarrow> MeshRepo \<Rightarrow> bool" where
  "request_goes_out env st =
     (fst (constructUrl (region_loaded env) st) \<noteq> []
      \<and> transport_handle env \<noteq> LLCORE_HTTP_HANDLE_INVALID)"

section \<open>Example values\<close>

text \<open>
  A header of 200 bytes for a mesh with a skin of 300 bytes and four LODs; the skin and
  LOD 2 are marked as cached. The cache file of mesh 7 is 1000 zero bytes: reserved but
  never written.
\<close>

definition example_layout :: flag_layout where
  "example_layout =
     \<lparr>skin_bit = 4, physics_convex_bit = 5, physics_mesh_bit = 6, lod_bit = (\<lambda>i. i)\<rparr>"

definition example_header :: LLMeshHeader where
  "example_header =
     \<lparr>mVersion = 1, mHeaderSize = 200, mSkinOffset = 0, mSkinSize = 300,
      mPhysicsConvexOffset = 300, mPhysicsConvexSize = 0,
      mPhysicsMeshOffset = 300, mPhysicsMeshSize = 0,
      mLodOffset = LodArray 300 400 500 600, mLodSize = LodArray 100 100 100 2000,
      m404 = False, mSkinInCache = True, mPhysicsConvexInCache = False,
      mPhysicsMeshInCache = False, mLodInCache = LodArray False False True False\<rparr>"

definition example_params :: LLVolumeParams where
  "example_params = \<lparr>mSculptID = 7\<rparr>"

definition example_env :: fetch_env where
  "example_env =
     \<lparr>region_loaded = True, buffer_allocated = True, pool_accepted = True,
      parse_succeeded = True, physics_unpacked = None, transport_handle = Handle 1\<rparr>"

definition example_repo :: MeshRepo where
  "example_repo =
     empty_repo\<lparr>mGetMeshCapability := ''https://sim/cap'',
                mMeshHeader := [7 \<mapsto> example_header],
                mCacheFiles := [7 \<mapsto> replicate 1000 0]\<rparr>"

definition example_lod_group :: lod_group_env where
  "example_lod_group = \<lparr>has_lod_group = False, lod_loaded = (\<lambda>lod. False)\<rparr>"

text \<open>A stored header without a usable size, as the fetch functions guard against.\<close>

definition example_repo_unsized :: MeshRepo where
  "example_repo_unsized =
     empty_repo\<lparr>mGetMeshCapability := ''https://sim/cap'',
                mMeshHeader := [7 \<mapsto> example_header\<lparr>mHeaderSize := 0\<rparr>]\<rparr>"

text \<open>
  The header of mesh 7 arrives in a window of 4096 bytes while LOD 2 is pending; LOD 2
  lies inside the window, and the volume parser rejects its bytes.
\<close>

definition example_header_env :: header_env where
  "example_header_env =
     \<lparr>stripped_bytes = 0, stripped_size = 4096, decode_ok = True, decoded_is_map = True,
      decoded_header = example_header\<lparr>mHeaderSize := 0, mSkinInCache := False,
                         mLodInCache := lod_fill False\<rparr>,
      stream_pos = 200,
      blank_header = example_header\<lparr>mHeaderSize := 0, mSkinInCache := False,
                       mLodInCache := lod_fill False\<rparr>,
      flag_bits = example_layout, skin_unzip_ok = True, lod_volume_ok = (\<lambda>i. False)\<rparr>"

definition example_repo_pending :: MeshRepo where
  "example_repo_pending =
     empty_repo\<lparr>mGetMeshCapability := ''https://sim/cap'',
                mPendingLOD := [7 \<mapsto> LodArray 0 0 1 0]\<rparr>"

text \<open>What the first half of \<open>headerReceived\<close> computes for that header.\<close>

definition example_locals :: header_locals where
  "example_locals =
     \<lparr>hl_header = example_header\<lparr>mLodInCache := lod_fill True\<rparr>,
      hl_header_size = 200, hl_data_size = 4096, hl_skin_offset = 0, hl_skin_size = 300,
      hl_lod_offset = LodArray 300 400 500 600, hl_lod_size = LodArray 100 100 100 2000\<rparr>"

text \<open>
  The same arrival with a volume parser that accepts the bytes of every LOD; with a
  header of version 1000; with a header none of whose LODs has a size; and with a header
  of version 1 whose record comes out of \<open>fromLLSD\<close> carrying the 404 mark already.
\<close>

definition example_accepting_env :: header_env where
  "example_accepting_env = example_header_env\<lparr>lod_volume_ok := (\<lambda>i. True)\<rparr>"

definition example_unsupported_env :: header_env where
  "example_unsupported_env =
     example_header_env\<lparr>decoded_header :=
        example_header\<lparr>mVersion := 1000, mHeaderSize := 0, mSkinInCache := False,
                        mLodInCache := lod_fill False\<rparr>,
        lod_volume_ok := (\<lambda>i. True)\<rparr>"

definition example_no_lod_env :: header_env where
  "example_no_lod_env =
     example_header_env\<lparr>decoded_header :=
        example_header\<lparr>mHeaderSize := 0, mLodSize := lod_fill 0, mSkinInCache := False,
                        mLodInCache := lod_fill False\<rparr>\<rparr>"

definition example_marked_env :: header_env where
  "example_marked_env =
     example_header_env\<lparr>decoded_header :=
        example_header\<lparr>mHeaderSize := 0, m404 := True, mSkinInCache := False,
                        mLodInCache := lod_fill False\<rparr>\<rparr>"

text \<open>
  Two skins in the registry's map, both copied in the worker's: mesh 7 is also held by
  an object (two references), mesh 8 only by the map.
\<close>

definition example_repo_skins :: MeshRepo where
  "example_repo_skins = empty_repo\<lparr>mSkinMap := [(7, 2), (8, 1)], mThreadSkinMap := {7, 8}\<rparr>"

text \<open>
  A run in which an object asks for the skin of mesh 7 before the header is known. The
  registry queues a skin request (\<open>getSkinInfo\<close>) and hands it to the worker; the
  worker's fetch fails for want of a header and the request is re-queued with a delay of
  half a second; the header arrives, declaring a skin of 5000 bytes that the window of
  4096 bytes cannot hold, and \<open>headerReceived\<close> queues a second skin request; one second
  after the first pass the worker runs its skin queue again.
\<close>

definition example_transport :: "nat \<Rightarrow> fetch_env" where
  "example_transport k = example_env\<lparr>transport_handle := Handle (Suc k)\<rparr>"

definition example_skin_header_env :: header_env where
  "example_skin_header_env =
     example_header_env\<lparr>decoded_header :=
        example_header\<lparr>mHeaderSize := 0, mSkinSize := 5000, mSkinInCache := False,
                        mLodOffset := LodArray 5000 5100 5200 5300,
                        mLodInCache := lod_fill False\<rparr>\<rparr>"

definition skin_asked :: MeshRepo where
  "skin_asked = snd (getSkinInfo 7 (Some 1) (empty_repo\<lparr>mGetMeshCapability := ''https://sim/cap''\<rparr>))"

definition skin_fed :: MeshRepo where
  "skin_fed = (case feed_pending_requests (\<lambda>reqs. reqs) 0 32 skin_asked of
                 Some st \<Rightarrow> st | None \<Rightarrow> skin_asked)"

definition skin_first_pass :: MeshRepo where
  "skin_first_pass = run_skin_requests example_transport 0 32 skin_fed"

definition skin_header_landed :: MeshRepo where
  "skin_header_landed =
     snd (headerReceived example_skin_header_env example_params 4096 0 skin_first_pass)"

definition skin_second_pass :: MeshRepo where
  "skin_second_pass = run_skin_requests example_transport 1 32 skin_header_landed"

section \<open>Headers first\<close>

text \<open>Every outstanding handler fetches a header, or a sub-section of a mesh whose header
  is in the header map.\<close>

definition headers_first :: "MeshRepo \<Rightarrow> bool" where
  "headers_first st =
     list_all (\<lambda>h. snd (handler_target (mClass h)) = SubHeader
                  \<or> mMeshHeader st (fst (handler_target (mClass h))) \<noteq> None)
       (mHttpRequestSet st)"

section \<open>Retry budget\<close>

lemma canRetry_unat: "canRetry r \<longleftrightarrow> unat (mRetries r) < 8"
  by (simp add: canRetry_def DOWNLOAD_RETRY_LIMIT_def word_less_nat_alt)

lemma retry_modifier_unat:
  assumes "unat (mRetries r) < 8"
  shows "real (unat (retry_modifier r)) = 2 ^ unat (mRetries r)"
proof -
  let ?n = "unat (mRetries r)"
  have lt: "(2::nat) ^ ?n < 2 ^ 32"
    using assms by (intro power_strict_increasing) simp_all
  have "push_bit ?n (1::U32) = of_nat (2 ^ ?n)"
    by (simp add: push_bit_eq_mult)
  then have "unat (push_bit ?n (1::U32)) = (2 ^ ?n) mod 2 ^ 32"
    by (simp only: unat_of_nat) simp
  with lt have "unat (push_bit ?n (1::U32)) = 2 ^ ?n"
    by simp
  then show ?thesis
    by (simp add: retry_modifier_def)
qed

lemma updateTime_retries:
  assumes "unat (mRetries r) < 8"
  shows "unat (mRetries (updateTime now r)) = Suc (unat (mRetries r))"
proof -
  have "unat (mRetries r + 1) = unat (mRetries r) + 1"
    using assms by (simp add: unat_word_ariths)
  then show ?thesis by (simp add: updateTime_def Let_def)
qed

lemma updateTime_expiry:
  assumes "unat (mRetries r) < 8"
  shows "mExpiry (mTimer (updateTime now r)) = now + 0.5 * 2 ^ unat (mRetries r)"
  using retry_modifier_unat [OF assms]
  by (simp add: updateTime_def Let_def DOWNLOAD_RETRY_DELAY_def)

lemma failed_attempts_gen:
  "failed_attempts ts r = Some r' \<Longrightarrow>
     unat (mRetries r') = unat (mRetries r) + length ts \<and>
     (ts \<noteq> [] \<longrightarrow> unat (mRetries r') \<le> 8 \<and>
        mExpiry (mTimer r') = last ts + 0.5 * 2 ^ (unat (mRetries r') - 1))"
proof (induction ts arbitrary: r)
  case Nil
  then show ?case by simp
next
  case (Cons t ts)
  from Cons.prems have c: "canRetry r"
    by (auto simp: on_fetch_failed_def split: if_splits)
  then have lt: "unat (mRetries r) < 8" by (simp add: canRetry_unat)
  from Cons.prems c have rest: "failed_attempts ts (updateTime t r) = Some r'"
    by (simp add: on_fetch_failed_def)
  note ih = Cons.IH [OF rest]
  show ?case
  proof (cases ts)
    case Nil
    with rest have "r' = updateTime t r" by simp
    then show ?thesis
      using Nil lt updateTime_retries [OF lt, of t] updateTime_expiry [OF lt, of t]
      by simp
  next
    case (Cons a as)
    then show ?thesis
      using ih updateTime_retries [OF lt, of t] by simp
  qed
qed

lemma failed_attempts_ex:
  "unat (mRetries r) + length ts \<le> 8 \<Longrightarrow> \<exists>r'. failed_attempts ts r = Some r'"
proof (induction ts arbitrary: r)
  case Nil
  then show ?case by simp
next
  case (Cons t ts)
  then have lt: "unat (mRetries r) < 8" by simp
  then have "unat (mRetries (updateTime t r)) + length ts \<le> 8"
    using Cons.prems updateTime_retries [OF lt, of t] by simp
  from Cons.IH [OF this] show ?case
    using lt by (simp add: on_fetch_failed_def canRetry_unat)
qed

text \<open>
  C3. A new request whose attempts fail at the times \<open>ts\<close> is still alive only if
  there were at most 8 failures; its retry count is then the number of failures, never
  above 8, and after the k-th failure (k the length of \<open>ts\<close>) it is delayed, and
  not eligible, until \<open>0.5 * 2 ^ (k - 1)\<close> seconds after that failure. Up to 8
  failures the request is always re-queued, and a request with 8 recorded retries is
  given up at its next failure instead of being retried.
\<close>

theorem retry_budget:
  "(failed_attempts ts new_RequestStats = Some r \<longrightarrow>
      unat (mRetries r) = length ts \<and> unat (mRetries r) \<le> 8 \<and>
      (ts \<noteq> [] \<longrightarrow>
         mStarted (mTimer r) \<and>
         mExpiry (mTimer r) = last ts + 0.5 * 2 ^ (length ts - 1) \<and>
         (\<forall>t. isDelayed t r \<longleftrightarrow> t < last ts + 0.5 * 2 ^ (length ts - 1)))) \<and>
   (length ts \<le> 8 \<longrightarrow> (\<exists>r'. failed_attempts ts new_RequestStats = Some r')) \<and>
   (mRetries q = 8 \<longrightarrow> on_fetch_failed now q = None)"
proof (intro conjI impI)
  assume a: "failed_attempts ts new_RequestStats = Some r"
  have n: "unat (mRetries r) = length ts"
    using failed_attempts_gen [OF a] by (simp add: new_RequestStats_def)
  have e: "ts \<noteq> [] \<longrightarrow> unat (mRetries r) \<le> 8 \<and>
        mExpiry (mTimer r) = last ts + 0.5 * 2 ^ (unat (mRetries r) - 1)"
    using failed_attempts_gen [OF a] by blast
  show "unat (mRetries r) = length ts" by (rule n)
  show "unat (mRetries r) \<le> 8" using n e by (cases ts) simp_all
  show "mExpiry (mTimer r) = last ts + 0.5 * 2 ^ (length ts - 1)" if "ts \<noteq> []"
    using that n e by simp
  have started: "mStarted (mTimer r)" if "ts \<noteq> []"
  proof -
    have "\<And>r0. failed_attempts ts r0 = Some r \<Longrightarrow> mStarted (mTimer r)"
      using that
    proof (induction ts)
      case Nil
      then show ?case by simp
    next
      case (Cons t ts)
      then show ?case
        by (cases ts) (auto simp: on_fetch_failed_def updateTime_def Let_def
            split: if_splits option.splits)
    qed
    with a show ?thesis by blast
  qed
  show "mStarted (mTimer r)" if "ts \<noteq> []"
    using that by (rule started)
  show "\<forall>t. isDelayed t r \<longleftrightarrow> t < last ts + 0.5 * 2 ^ (length ts - 1)" if "ts \<noteq> []"
    using that started n e by (auto simp: isDelayed_def)
next
  assume "length ts \<le> 8"
  then show "\<exists>r'. failed_attempts ts new_RequestStats = Some r'"
    by (intro failed_attempts_ex) (simp add: new_RequestStats_def)
next
  assume "mRetries q = 8"
  then show "on_fetch_failed now q = None"
    by (simp add: on_fetch_failed_def canRetry_def DOWNLOAD_RETRY_LIMIT_def)
qed

theorem retry_budget_witness:
  "failed_attempts [0, 1, 3] new_RequestStats =
     Some \<lparr>mRetries = 3, mTimer = \<lparr>mStarted = True, mExpiry = 5\<rparr>\<rparr> \<and>
   unat (3 :: U32) = length [0, 1, 3 :: real] \<and>
   (5 :: real) = last [0, 1, 3] + 0.5 * 2 ^ (length [0, 1, 3 :: real] - 1) \<and>
   length [0, 1, 3 :: real] \<le> 8 \<and>
   on_fetch_failed 9 \<lparr>mRetries = 8, mTimer = \<lparr>mStarted = True, mExpiry = 7\<rparr>\<rparr> = None"
  using retry_budget [of "[0, 1, 3]"
      "\<lparr>mRetries = 3, mTimer = \<lparr>mStarted = True, mExpiry = 5\<rparr>\<rparr>"
      "\<lparr>mRetries = 8, mTimer = \<lparr>mStarted = True, mExpiry = 7\<rparr>\<rparr>" 9]
  by (simp add: on_fetch_failed_def canRetry_def updateTime_def retry_modifier_def
      new_RequestStats_def DOWNLOAD_RETRY_LIMIT_def DOWNLOAD_RETRY_DELAY_def Let_def)

section \<open>Responses without a range header\<close>

lemma ucast_requested_unat: "unat (ucast (r :: U32) :: 64 word) = unat r"
proof -
  have "unat r < 2 ^ 32" using unsigned_less [of r] by simp
  then have "unat r < 2 ^ 64" by simp
  then show ?thesis by (simp add: unsigned_ucast_eq take_bit_nat_eq_self)
qed

lemma same_offset_no_mismatch:
  assumes "0 < d" and "unat d < 2 ^ 63"
  shows "\<not> range_mismatch r r d"
proof -
  note r = ucast_requested_unat [of r]
  have lt: "unat r < 2 ^ 32" using unsigned_less [of r] by simp
  have "unat (ucast r :: 64 word) + unat d < 2 ^ 64" using assms r lt by simp
  moreover have "unat ((ucast r :: 64 word) + d) = (unat (ucast r :: 64 word) + unat d) mod 2 ^ 64"
    by (simp add: unat_word_ariths)
  ultimately have "unat ((ucast r :: 64 word) + d) = unat r + unat d"
    using r by simp
  moreover have "0 < unat d" using assms(1) by (simp add: word_less_nat_alt)
  ultimately have "\<not> (ucast r + d \<le> (ucast r :: 64 word))"
    using r by (simp add: word_le_nat_alt)
  moreover have "\<not> d \<le> 0" using assms(1) by (simp add: word_le_nat_alt word_less_nat_alt)
  ultimately show ?thesis by (simp add: range_mismatch_def)
qed

text \<open>
  C7. A successful 206 response whose range reads as offset 0 and length 0 is taken to
  start at the requested offset: the offset into the body is 0, so the slice handed to
  \<open>processData\<close> begins at the request's first byte, and the response is never failed
  with the content-range error. (The body is a buffer in memory: its size is below
  \<open>2 ^ 63\<close>, so the 64-bit sum of the validation does not wrap.)
\<close>

theorem partial_without_range_header:
  assumes "status_ok response" and "status_partial response"
    and "range_offset response = 0" and "range_length response = 0"
    and "unat (body_size response) < 2 ^ 63"
  shows "response_offset requested response = requested \<and>
         ProcessFailure HE_INV_CONTENT_RANGE_HDR \<notin> set (onCompleted requested response) \<and>
         (\<exists>present n. last (onCompleted requested response) = ProcessData 0 present n)"
proof (cases "0 < body_size response")
  case True
  have off: "response_offset requested response = requested"
    using assms by (simp add: response_offset_def)
  have "\<not> range_mismatch requested requested (body_size response)"
    using True assms(5) by (rule same_offset_no_mismatch)
  then show ?thesis
    using True off assms(1) by (simp add: onCompleted_def Let_def)
next
  case False
  then show ?thesis
    using assms by (auto simp: onCompleted_def Let_def response_offset_def)
qed

theorem partial_without_range_header_witness:
  "onCompleted 4096 \<lparr>status_ok = True, status_partial = True, range_offset = 0,
      range_length = 0, body_size = 300, copy_alloc_ok = True\<rparr> = [ProcessData 0 True 300]"
  using partial_without_range_header [of "\<lparr>status_ok = True, status_partial = True,
      range_offset = 0, range_length = 0, body_size = 300, copy_alloc_ok = True\<rparr>" 4096]
  by (simp add: onCompleted_def response_offset_def range_mismatch_def Let_def)

section \<open>Requests for a LOD out of range\<close>

text \<open>
  C10. A call of the registry's \<open>loadMesh\<close> with a LOD below 0 or above 3 returns the
  requested LOD and leaves the state as it was: no pending request, no entry in a loading
  table, and no access to \<open>mLoadingMeshes\<close> at all.
\<close>

theorem loadMesh_out_of_range:
  assumes "sint new_lod < 0 \<or> 3 < sint new_lod"
  shows "loadMesh env vobj mesh_params new_lod last_lod st = (new_lod, st)"
  using assms by (auto simp: loadMesh_def NUM_LODS_def)

theorem loadMesh_out_of_range_witness:
  "loadMesh example_lod_group 1 example_params 4 0 example_repo = (4, example_repo) \<and>
   loadMesh example_lod_group 1 example_params (- 1) 0 example_repo = (- 1, example_repo)"
  using loadMesh_out_of_range [of 4 example_lod_group 1 example_params 0 example_repo]
    loadMesh_out_of_range [of "- 1" example_lod_group 1 example_params 0 example_repo]
  by simp

section \<open>Physics shapes\<close>

text \<open>
  C8 as stated fails: for a stored header whose size is 0 the fetch does nothing at all,
  so no null result reaches the decomposition queue.
\<close>

theorem physics_shape_unsized_header_counterexample:
  "mMeshHeader example_repo_unsized 7 = Some (example_header\<lparr>mHeaderSize := 0\<rparr>) \<and>
   mPhysicsMeshSize (example_header\<lparr>mHeaderSize := 0\<rparr>) = 0 \<and>
   mDecompositionQ example_repo_unsized = [] \<and>
   fetchMeshPhysicsShape example_env 7 example_repo_unsized = (True, example_repo_unsized)"
  by (simp add: fetchMeshPhysicsShape_def example_repo_unsized_def example_header_def
      empty_repo_def)

text \<open>
  C8, amended. For a physics-shape fetch on a mesh whose stored header has a size other
  than 0 and a physics-mesh size of 0, the fetch returns true, a result with an empty
  physics shape is appended to the decomposition queue, and nothing else changes: in
  particular no HTTP request is issued.
\<close>

theorem physics_shape_absent:
  assumes "mMeshHeader st mesh_id = Some header"
    and "mHeaderSize header \<noteq> 0"
    and "mPhysicsMeshSize header = 0"
  shows "fetchMeshPhysicsShape env mesh_id st =
           (True, st\<lparr>mDecompositionQ := mDecompositionQ st
              @ [\<lparr>mMeshID = mesh_id, mPhysicsShapeMesh = 0, mFromBlock = False\<rparr>]\<rparr>)"
  using assms by (simp add: fetchMeshPhysicsShape_def physicsShapeReceived_def Let_def)

theorem physics_shape_absent_witness:
  "mMeshHeader example_repo 7 = Some example_header \<and>
   mHeaderSize example_header \<noteq> 0 \<and> mPhysicsMeshSize example_header = 0 \<and>
   fetchMeshPhysicsShape example_env 7 example_repo =
     (True, example_repo\<lparr>mDecompositionQ := mDecompositionQ example_repo
        @ [\<lparr>mMeshID = 7, mPhysicsShapeMesh = 0, mFromBlock = False\<rparr>]\<rparr>)"
proof -
  have h: "mMeshHeader example_repo 7 = Some example_header"
    by (simp add: example_repo_def)
  have s: "mHeaderSize example_header \<noteq> 0" and p: "mPhysicsMeshSize example_header = 0"
    by (simp_all add: example_header_def)
  from physics_shape_absent [OF h s p, of example_env] h s p show ?thesis by simp
qed

section \<open>No sub-section request without a header\<close>

lemma loadMeshLOD_no_header:
  assumes "mMeshHeader st (getSculptID mesh_params) = None" and "valid_lod lod"
  shows "\<exists>st'. loadMeshLOD mesh_params lod st = Some st' \<and>
           mLODReqQ st' = mLODReqQ st \<and> mHttpRequestSet st' = mHttpRequestSet st \<and>
           mMeshHeader st' = mMeshHeader st \<and>
           (\<exists>pending. mPendingLOD st' (getSculptID mesh_params) = Some pending \<and>
              lod_at pending (lod_index lod) =
                (case mPendingLOD st (getSculptID mesh_params) of
                   None \<Rightarrow> 1 | Some old \<Rightarrow> lod_at old (lod_index lod) + 1)) \<and>
           mHeaderReqQ st' =
             (if mPendingLOD st (getSculptID mesh_params) = None
              then mHeaderReqQ st @ [new_HeaderRequest mesh_params] else mHeaderReqQ st)"
proof -
  have at_upd: "\<And>(a :: S32 lod_array) v. lod_at (lod_upd a (lod_index lod) v) (lod_index lod) = v"
  proof -
    fix a :: "S32 lod_array" and v
    show "lod_at (lod_upd a (lod_index lod) v) (lod_index lod) = v"
      by (cases a) simp
  qed
  show ?thesis
    using assms
    by (cases "mPendingLOD st (getSculptID mesh_params)")
      (simp_all add: loadMeshLOD_def hasHeader_def Let_def at_upd)
qed

lemma no_header_no_fetch:
  assumes "mMeshHeader st (getSculptID mesh_params) = None" and "valid_lod lod"
  shows "fetchMeshLOD env mesh_params lod st = Some (False, st) \<and>
         fetchMeshSkinInfo env (getSculptID mesh_params) st = (False, st) \<and>
         fetchMeshDecomposition env (getSculptID mesh_params) st = (False, st) \<and>
         fetchMeshPhysicsShape env (getSculptID mesh_params) st = (False, st) \<and>
         (\<exists>st'. loadMeshLOD mesh_params lod st = Some st' \<and>
            mLODReqQ st' = mLODReqQ st \<and> mHttpRequestSet st' = mHttpRequestSet st \<and>
            mMeshHeader st' = mMeshHeader st \<and>
            (\<exists>pending. mPendingLOD st' (getSculptID mesh_params) = Some pending \<and>
               lod_at pending (lod_index lod) =
                 (case mPendingLOD st (getSculptID mesh_params) of
                    None \<Rightarrow> 1 | Some old \<Rightarrow> lod_at old (lod_index lod) + 1)) \<and>
            mHeaderReqQ st' =
              (if mPendingLOD st (getSculptID mesh_params) = None
               then mHeaderReqQ st @ [new_HeaderRequest mesh_params] else mHeaderReqQ st))"
proof (intro conjI)
  show "fetchMeshLOD env mesh_params lod st = Some (False, st)"
    using assms(1) by (simp add: fetchMeshLOD_def Let_def)
  show "fetchMeshSkinInfo env (getSculptID mesh_params) st = (False, st)"
    using assms(1) by (simp add: fetchMeshSkinInfo_def)
  show "fetchMeshDecomposition env (getSculptID mesh_params) st = (False, st)"
    using assms(1) by (simp add: fetchMeshDecomposition_def)
  show "fetchMeshPhysicsShape env (getSculptID mesh_params) st = (False, st)"
    using assms(1) by (simp add: fetchMeshPhysicsShape_def)
  show "\<exists>st'. loadMeshLOD mesh_params lod st = Some st' \<and>
            mLODReqQ st' = mLODReqQ st \<and> mHttpRequestSet st' = mHttpRequestSet st \<and>
            mMeshHeader st' = mMeshHeader st \<and>
            (\<exists>pending. mPendingLOD st' (getSculptID mesh_params) = Some pending \<and>
               lod_at pending (lod_index lod) =
                 (case mPendingLOD st (getSculptID mesh_params) of
                    None \<Rightarrow> 1 | Some old \<Rightarrow> lod_at old (lod_index lod) + 1)) \<and>
            mHeaderReqQ st' =
              (if mPendingLOD st (getSculptID mesh_params) = None
               then mHeaderReqQ st @ [new_HeaderRequest mesh_params] else mHeaderReqQ st)"
    using assms by (rule loadMeshLOD_no_header)
qed

section \<open>Cached bytes that are all zero\<close>

text \<open>
  C1 as stated fails: mesh 7 has LOD 2 marked as cached and its cached bytes are all
  zero. \<open>fetchMeshLOD\<close> issues the HTTP request and changes nothing else: the stored
  header keeps every presence bit it had and the cache file, preamble included, is not
  written.
\<close>

theorem zero_cache_keeps_flags_counterexample:
  "cached_lod_reads_zero example_env example_params 2 example_repo \<and>
   mMeshHeader example_repo 7 = Some example_header \<and>
   lod_at (mLodInCache example_header) 2 \<and> mSkinInCache example_header \<and>
   fetchMeshLOD example_env example_params 2 example_repo =
     Some (True, example_repo\<lparr>mHttpRequestSet :=
       [\<lparr>mClass = LLMeshLODHandler example_params 2, mOffset = 700, mRequestedBytes = 100,
         mHttpHandle = Handle 1, mProcessed = False\<rparr>]\<rparr>)"
  by (simp add: cached_lod_reads_zero_def fetchMeshLOD_def example_repo_def
      example_header_def example_params_def example_env_def empty_repo_def getSculptID_def
      valid_lod_def lod_index_def NUM_LODS_def MAX_MESH_VERSION_def CACHE_PREAMBLE_SIZE_def
      file_getSize_def file_read_def first_kilobyte_zero_def constructUrl_def
      new_handler_def new_LODRequest_def Let_def list_all_iff)

lemma outstanding_append:
  "outstanding (st\<lparr>mHttpRequestSet := mHttpRequestSet st @ [h]\<rparr>) mesh_id sub =
     outstanding st mesh_id sub + (if handler_target (mClass h) = (mesh_id, sub) then 1 else 0)"
  by (simp add: outstanding_def)

lemma zero_cache_lod:
  assumes "cached_lod_reads_zero env mesh_params lod st"
  shows "\<exists>ok st'. fetchMeshLOD env mesh_params lod st = Some (ok, st') \<and>
           mMeshHeader st' = mMeshHeader st \<and> mCacheFiles st' = mCacheFiles st \<and>
           mMeshThreadPool st' = mMeshThreadPool st \<and> mLoadedQ st' = mLoadedQ st \<and>
           (request_goes_out env st \<longrightarrow>
              ok \<and> outstanding st' (getSculptID mesh_params) (SubLOD lod) =
                     Suc (outstanding st (getSculptID mesh_params) (SubLOD lod)))"
proof (cases "mMeshHeader st (getSculptID mesh_params)")
  case None
  with assms show ?thesis by (simp add: cached_lod_reads_zero_def)
next
  case (Some header)
  with assms show ?thesis
    by (auto simp: cached_lod_reads_zero_def fetchMeshLOD_def request_goes_out_def Let_def
        outstanding_append new_handler_def)
qed

lemma zero_cache_skin:
  assumes "cached_skin_reads_zero env mesh_id st"
  shows "\<exists>ok st'. fetchMeshSkinInfo env mesh_id st = (ok, st') \<and>
           mMeshHeader st' = mMeshHeader st \<and> mCacheFiles st' = mCacheFiles st \<and>
           mMeshThreadPool st' = mMeshThreadPool st \<and> mSkinInfoQ st' = mSkinInfoQ st \<and>
           (request_goes_out env st \<longrightarrow>
              ok \<and> outstanding st' mesh_id SubSkin = Suc (outstanding st mesh_id SubSkin))"
proof (cases "mMeshHeader st mesh_id")
  case None
  with assms show ?thesis by (simp add: cached_skin_reads_zero_def)
next
  case (Some header)
  with assms show ?thesis
    by (auto simp: cached_skin_reads_zero_def fetchMeshSkinInfo_def request_goes_out_def
        Let_def outstanding_append new_handler_def)
qed

text \<open>
  C1, amended. When the cached bytes of a LOD or of the skin are read and their first
  kilobyte is all zero, the fetch does not trust the cache: it posts no parse task and
  delivers nothing, and when the region has a capability URL and the transport returns a
  valid handle it issues an HTTP request for that sub-section. The stored header, its
  presence bits included, and the cache file with its preamble stay as they were.
\<close>

theorem zero_cache_fetch:
  "(cached_lod_reads_zero env mesh_params lod st \<longrightarrow>
      (\<exists>ok st'. fetchMeshLOD env mesh_params lod st = Some (ok, st') \<and>
         mMeshHeader st' = mMeshHeader st \<and> mCacheFiles st' = mCacheFiles st \<and>
         mMeshThreadPool st' = mMeshThreadPool st \<and> mLoadedQ st' = mLoadedQ st \<and>
         (request_goes_out env st \<longrightarrow>
            ok \<and> outstanding st' (getSculptID mesh_params) (SubLOD lod) =
                   Suc (outstanding st (getSculptID mesh_params) (SubLOD lod))))) \<and>
   (cached_skin_reads_zero env mesh_id st \<longrightarrow>
      (\<exists>ok st'. fetchMeshSkinInfo env mesh_id st = (ok, st') \<and>
         mMeshHeader st' = mMeshHeader st \<and> mCacheFiles st' = mCacheFiles st \<and>
         mMeshThreadPool st' = mMeshThreadPool st \<and> mSkinInfoQ st' = mSkinInfoQ st \<and>
         (request_goes_out env st \<longrightarrow>
            ok \<and> outstanding st' mesh_id SubSkin = Suc (outstanding st mesh_id SubSkin))))"
  using zero_cache_lod [of env mesh_params lod st] zero_cache_skin [of env mesh_id st]
  by blast

theorem zero_cache_fetch_witness:
  "cached_lod_reads_zero example_env example_params 2 example_repo \<and>
   cached_skin_reads_zero example_env 7 example_repo \<and>
   request_goes_out example_env example_repo \<and>
   (\<exists>st'. fetchMeshLOD example_env example_params 2 example_repo = Some (True, st') \<and>
      mMeshHeader st' = mMeshHeader example_repo \<and>
      outstanding st' (getSculptID example_params) (SubLOD 2) = 1) \<and>
   (\<exists>st'. fetchMeshSkinInfo example_env 7 example_repo = (True, st') \<and>
      mMeshHeader st' = mMeshHeader example_repo \<and> outstanding st' 7 SubSkin = 1)"
proof -
  have l: "cached_lod_reads_zero example_env example_params 2 example_repo"
    by (simp add: cached_lod_reads_zero_def example_repo_def
      example_header_def example_params_def example_env_def empty_repo_def getSculptID_def
      valid_lod_def lod_index_def NUM_LODS_def MAX_MESH_VERSION_def CACHE_PREAMBLE_SIZE_def
      file_getSize_def file_read_def first_kilobyte_zero_def Let_def list_all_iff)
  have s: "cached_skin_reads_zero example_env 7 example_repo"
    by (simp add: cached_skin_reads_zero_def example_repo_def
      example_header_def example_env_def empty_repo_def
      MAX_MESH_VERSION_def CACHE_PREAMBLE_SIZE_def
      file_getSize_def file_read_def first_kilobyte_zero_def Let_def list_all_iff)
  have g: "request_goes_out example_env example_repo"
    by (simp add: request_goes_out_def constructUrl_def example_env_def example_repo_def
        empty_repo_def)
  have o: "outstanding example_repo (getSculptID example_params) (SubLOD 2) = 0"
    "outstanding example_repo 7 SubSkin = 0"
    by (simp_all add: outstanding_def example_repo_def empty_repo_def)
  from zero_cache_fetch [of example_env example_params 2 example_repo 7] l s g o
  show ?thesis by auto
qed

section \<open>Parsing a header\<close>

lemma all_lods: "(\<forall>i<4. P (i::nat)) \<longleftrightarrow> P 0 \<and> P 1 \<and> P 2 \<and> P 3"
proof -
  have "{..<4::nat} = {0, 1, 2, 3}" by auto
  then have "(\<forall>i<4. P i) \<longleftrightarrow> (\<forall>i\<in>{0, 1, 2, 3}. P i)" by (metis lessThan_iff)
  then show ?thesis by simp
qed

lemma upt_1_4: "[Suc 0..<4] = [1, 2, 3]"
  by (simp add: upt_rec)

lemma getActualMeshLOD_zero:
  assumes "\<not> m404 h" and "\<not> sint MAX_MESH_VERSION < sint (mVersion h)"
  shows "getActualMeshLOD h 0 =
    (if lod_present h 0 then (0, h) else if lod_present h 1 then (1, h)
     else if lod_present h 2 then (2, h) else if lod_present h 3 then (3, h)
     else (- 1, h\<lparr>m404 := True\<rparr>))"
  using assms
  by (simp add: getActualMeshLOD_def llclamp_def lod_index_def NUM_LODS_def Let_def upt_1_4)

lemma flags_from_window_m404 [simp]: "m404 (flags_from_window hs ds h) = m404 h"
  by (simp add: flags_from_window_def Let_def)

lemma setFromFlags_m404 [simp]: "m404 (setFromFlags lay f h) = m404 h"
  by (simp add: setFromFlags_def)

lemma getActualMeshLOD_marked:
  assumes "m404 h"
  shows "getActualMeshLOD h lod = (- 1, h)"
  using assms by (simp add: getActualMeshLOD_def Let_def)

lemma parse_header_404:
  assumes "0 < sint data_size" and "decode_ok env" and "decoded_is_map env"
  shows "\<exists>l. parse_header env data_size flags = Inr l \<and>
           (m404 (hl_header l) \<longleftrightarrow>
              m404 (decoded_header env)
              \<or> sint MAX_MESH_VERSION < sint (mVersion (decoded_header env))
              \<or> (\<forall>i<4. \<not> lod_present (decoded_header env) i))"
proof (cases "sint MAX_MESH_VERSION < sint (mVersion (decoded_header env))")
  case True
  with assms show ?thesis by (simp add: parse_header_def Let_def)
next
  case False
  show ?thesis
  proof (cases "m404 (decoded_header env)")
    case True
    note g = getActualMeshLOD_marked [OF True, of 0]
    show ?thesis
      using assms False True
      by (simp add: parse_header_def Let_def g)
  next
    case unmarked: False
    note g = getActualMeshLOD_zero [OF unmarked False]
    show ?thesis
      using assms False unmarked
      by (simp add: parse_header_def Let_def g all_lods)
  qed
qed

lemma request_skin_info_header [simp]:
  "mMeshHeader (request_skin_info env l i st) = mMeshHeader st"
  by (simp add: request_skin_info_def Let_def skinInfoReceived_def split: prod.splits)

lemma pending_lod_step_header [simp]:
  "mMeshHeader (pending_lod_step env l p pend i st) = mMeshHeader st"
  by (simp add: pending_lod_step_def Let_def lodReceived_def split: prod.splits)

lemma pending_lods_loop_header [simp]:
  "mMeshHeader (pending_lods_loop env l p pend is st) = mMeshHeader st"
  by (induction "is" arbitrary: st) simp_all

lemma headerReceived_stores:
  assumes "parse_header env data_size flags = Inr l"
  shows "fst (headerReceived env mesh_params data_size flags st) = MESH_OK \<and>
         mMeshHeader (snd (headerReceived env mesh_params data_size flags st))
           (getSculptID mesh_params) = Some (hl_header l)"
  using assms by (simp add: headerReceived_def Let_def split: option.splits)

text \<open>
  C5 as stated fails: the bytes of the header of mesh 7 decode to a map of version 1 whose
  LOD 0 has 100 bytes, and the record \<open>fromLLSD\<close> fills from it carries the 404 mark.
  \<open>getActualMeshLOD\<close> tests that mark before anything else and returns \<open>-1\<close>, so the
  header is stored with the mark although neither gate of the claim applies.
\<close>

theorem header_marked_by_decoder_counterexample:
  "0 < sint (4096 :: S32) \<and> decode_ok example_marked_env \<and>
   decoded_is_map example_marked_env \<and>
   \<not> sint MAX_MESH_VERSION < sint (mVersion (decoded_header example_marked_env)) \<and>
   lod_present (decoded_header example_marked_env) 0 \<and>
   fst (headerReceived example_marked_env example_params 4096 0 example_repo_pending)
     = MESH_OK \<and>
   mMeshHeader (snd (headerReceived example_marked_env example_params 4096 0
       example_repo_pending)) 7 = Some (decoded_header example_marked_env) \<and>
   m404 (decoded_header example_marked_env)"
proof -
  have b: "decode_ok example_marked_env" "decoded_is_map example_marked_env"
    "m404 (decoded_header example_marked_env)"
    by (simp_all add: example_marked_env_def example_header_env_def example_header_def)
  have v: "\<not> sint MAX_MESH_VERSION < sint (mVersion (decoded_header example_marked_env))"
    by (simp add: example_marked_env_def example_header_env_def example_header_def
        MAX_MESH_VERSION_def)
  have p: "lod_present (decoded_header example_marked_env) 0"
    by (simp add: example_marked_env_def example_header_env_def example_header_def
        lod_present_def)
  note g = getActualMeshLOD_marked [OF b(3), of 0]
  have "\<exists>l. parse_header example_marked_env 4096 0 = Inr l \<and>
          hl_header l = decoded_header example_marked_env"
    using b v by (simp add: parse_header_def Let_def g)
  then obtain l where l: "parse_header example_marked_env 4096 0 = Inr l"
    and h: "hl_header l = decoded_header example_marked_env" by blast
  have i: "getSculptID example_params = 7"
    by (simp add: getSculptID_def example_params_def)
  from headerReceived_stores [OF l, of example_params example_repo_pending] h i b v p
  show ?thesis by simp
qed

text \<open>
  C5, amended. When the bytes of a header decode to a map, \<open>headerReceived\<close> returns
  \<open>MESH_OK\<close> and stores a header that is marked 404 exactly when the record filled from
  the map carries the mark already, or the version is greater than 999, or none of the
  four LODs has a positive size; in every other case the header is stored without the
  mark.
\<close>

theorem header_404_gates:
  assumes "0 < sint data_size" and "decode_ok env" and "decoded_is_map env"
  shows "fst (headerReceived env mesh_params data_size flags st) = MESH_OK \<and>
         (\<exists>header.
            mMeshHeader (snd (headerReceived env mesh_params data_size flags st))
              (getSculptID mesh_params) = Some header \<and>
            (m404 header \<longleftrightarrow>
               m404 (decoded_header env)
               \<or> sint MAX_MESH_VERSION < sint (mVersion (decoded_header env))
               \<or> (\<forall>i<4. \<not> lod_present (decoded_header env) i)))"
proof -
  from parse_header_404 [OF assms, of flags] obtain l where
    l: "parse_header env data_size flags = Inr l"
    and m: "m404 (hl_header l) \<longleftrightarrow>
              m404 (decoded_header env)
              \<or> sint MAX_MESH_VERSION < sint (mVersion (decoded_header env))
              \<or> (\<forall>i<4. \<not> lod_present (decoded_header env) i)"
    by blast
  from headerReceived_stores [OF l, of mesh_params st] m show ?thesis by blast
qed

theorem header_404_gates_witness:
  "0 < sint (4096 :: S32) \<and>
   decode_ok example_header_env \<and> decoded_is_map example_header_env \<and>
   (\<exists>header.
      mMeshHeader (snd (headerReceived example_header_env example_params 4096 0
          example_repo_pending)) 7 = Some header \<and> \<not> m404 header) \<and>
   decode_ok example_unsupported_env \<and> decoded_is_map example_unsupported_env \<and>
   sint MAX_MESH_VERSION < sint (mVersion (decoded_header example_unsupported_env)) \<and>
   (\<exists>header.
      mMeshHeader (snd (headerReceived example_unsupported_env example_params 4096 0
          example_repo_pending)) 7 = Some header \<and> m404 header) \<and>
   decode_ok example_no_lod_env \<and> decoded_is_map example_no_lod_env \<and>
   \<not> m404 (decoded_header example_no_lod_env) \<and>
   \<not> sint MAX_MESH_VERSION < sint (mVersion (decoded_header example_no_lod_env)) \<and>
   \<not> lod_present (decoded_header example_no_lod_env) 0 \<and>
   \<not> lod_present (decoded_header example_no_lod_env) 1 \<and>
   \<not> lod_present (decoded_header example_no_lod_env) 2 \<and>
   \<not> lod_present (decoded_header example_no_lod_env) 3 \<and>
   (\<exists>header.
      mMeshHeader (snd (headerReceived example_no_lod_env example_params 4096 0
          example_repo_pending)) 7 = Some header \<and> m404 header)"
proof -
  have a: "0 < sint (4096 :: S32)" by simp
  have b: "decode_ok example_header_env" "decoded_is_map example_header_env"
    by (simp_all add: example_header_env_def)
  have c: "\<not> m404 (decoded_header example_header_env)"
    "\<not> sint MAX_MESH_VERSION < sint (mVersion (decoded_header example_header_env))"
    "lod_present (decoded_header example_header_env) 0"
    by (simp_all add: example_header_env_def example_header_def MAX_MESH_VERSION_def
        lod_present_def)
  have u: "decode_ok example_unsupported_env" "decoded_is_map example_unsupported_env"
    by (simp_all add: example_unsupported_env_def example_header_env_def)
  have uv: "sint MAX_MESH_VERSION < sint (mVersion (decoded_header example_unsupported_env))"
    by (simp add: example_unsupported_env_def example_header_env_def example_header_def
        MAX_MESH_VERSION_def)
  have n: "decode_ok example_no_lod_env" "decoded_is_map example_no_lod_env"
    by (simp_all add: example_no_lod_env_def example_header_env_def)
  have nv: "\<not> m404 (decoded_header example_no_lod_env)"
    "\<not> sint MAX_MESH_VERSION < sint (mVersion (decoded_header example_no_lod_env))"
    by (simp_all add: example_no_lod_env_def example_header_env_def example_header_def
        MAX_MESH_VERSION_def)
  have nl: "\<not> lod_present (decoded_header example_no_lod_env) 0"
    "\<not> lod_present (decoded_header example_no_lod_env) 1"
    "\<not> lod_present (decoded_header example_no_lod_env) 2"
    "\<not> lod_present (decoded_header example_no_lod_env) 3"
    by (simp_all add: example_no_lod_env_def example_header_env_def example_header_def
        lod_present_def lod_fill_def)
  have i: "getSculptID example_params = 7"
    by (simp add: getSculptID_def example_params_def)
  from header_404_gates [OF a b, of example_params 0 example_repo_pending] c i
  have 1: "\<exists>header.
      mMeshHeader (snd (headerReceived example_header_env example_params 4096 0
          example_repo_pending)) 7 = Some header \<and> \<not> m404 header"
    by auto
  from header_404_gates [OF a u, of example_params 0 example_repo_pending] uv i
  have 2: "\<exists>header.
      mMeshHeader (snd (headerReceived example_unsupported_env example_params 4096 0
          example_repo_pending)) 7 = Some header \<and> m404 header"
    by auto
  from header_404_gates [OF a n, of example_params 0 example_repo_pending] nl i
  have 3: "\<exists>header.
      mMeshHeader (snd (headerReceived example_no_lod_env example_params 4096 0
          example_repo_pending)) 7 = Some header \<and> m404 header"
    by (auto simp: all_lods)
  from a b u uv n nv nl 1 2 3 show ?thesis by simp
qed

section \<open>Serving sub-sections from the bytes of the header fetch\<close>

lemma pending_lod_step_eq:
  "pending_lod_step env l p pend i st =
     (if 0 < sint (lod_at pend i) \<and> 0 < sint (lod_at (hl_lod_size l) i) then
        (if lod_in_hand l i \<and> lod_volume_ok env i
         then st\<lparr>mLoadedQ := mLoadedQ st @ [\<lparr>mLoadedParams = p, mLoadedLOD = of_nat i\<rparr>]\<rparr>
         else st\<lparr>mLODReqQ := mLODReqQ st @ [new_LODRequest p (of_nat i)]\<rparr>)
      else st)"
proof -
  have nz: "0 < sint (lod_at (hl_lod_size l) i) \<Longrightarrow> lod_at (hl_lod_size l) i \<noteq> 0"
    by auto
  show ?thesis
    using nz by (auto simp: pending_lod_step_def lodReceived_def Let_def)
qed

lemma pending_lods_loop_eq:
  "pending_lods_loop env l p pend is st =
     st\<lparr>mLODReqQ := mLODReqQ st @ map (\<lambda>i. new_LODRequest p (of_nat i))
            (filter (\<lambda>i. (0 < sint (lod_at pend i) \<and> 0 < sint (lod_at (hl_lod_size l) i))
                        \<and> \<not> (lod_in_hand l i \<and> lod_volume_ok env i)) is),
        mLoadedQ := mLoadedQ st @ map (\<lambda>i. \<lparr>mLoadedParams = p, mLoadedLOD = of_nat i\<rparr>)
            (filter (\<lambda>i. (0 < sint (lod_at pend i) \<and> 0 < sint (lod_at (hl_lod_size l) i))
                        \<and> (lod_in_hand l i \<and> lod_volume_ok env i)) is)\<rparr>"
proof (induction "is" arbitrary: st)
  case Nil
  show ?case by simp
next
  case (Cons i "is")
  show ?case
    by (simp add: Cons.IH pending_lod_step_eq)
qed

lemma request_skin_info_eq:
  "request_skin_info env l mesh_id st =
     (if 0 \<le> sint (hl_skin_offset l) \<and> 0 < sint (hl_skin_size l) then
        (let st1 = (if mLoadingSkins st mesh_id = None
                    then st\<lparr>mLoadingSkins := (mLoadingSkins st)(mesh_id \<mapsto> \<lparr>mVolumes = []\<rparr>)\<rparr>
                    else st)
         in if skin_in_hand l \<and> skin_unzip_ok env
            then st1\<lparr>mThreadSkinMap := insert mesh_id (mThreadSkinMap st1),
                     mSkinInfoQ := mSkinInfoQ st1 @ [mesh_id]\<rparr>
            else st1\<lparr>mSkinRequests := mSkinRequests st1 @ [new_UUIDBasedRequest mesh_id]\<rparr>)
      else st)"
  by (auto simp: request_skin_info_def skinInfoReceived_def Let_def)

text \<open>What \<open>headerReceived\<close> appends to the queues, in terms of its locals.\<close>

lemma headerReceived_queues:
  assumes "parse_header env data_size flags = Inr l"
  shows "\<exists>st'. headerReceived env mesh_params data_size flags st = (MESH_OK, st') \<and>
     mHttpRequestSet st' = mHttpRequestSet st \<and>
     mLODReqQ st' = mLODReqQ st @ map (\<lambda>i. new_LODRequest mesh_params (of_nat i))
        (filter (\<lambda>i. (0 < sint (pending_count st (getSculptID mesh_params) i)
                        \<and> 0 < sint (lod_at (hl_lod_size l) i))
                      \<and> \<not> (lod_in_hand l i \<and> lod_volume_ok env i))
           [0, 1, 2, 3]) \<and>
     mLoadedQ st' = mLoadedQ st @ map (\<lambda>i. \<lparr>mLoadedParams = mesh_params, mLoadedLOD = of_nat i\<rparr>)
        (filter (\<lambda>i. (0 < sint (pending_count st (getSculptID mesh_params) i)
                        \<and> 0 < sint (lod_at (hl_lod_size l) i))
                      \<and> (lod_in_hand l i \<and> lod_volume_ok env i))
           [0, 1, 2, 3]) \<and>
     mSkinRequests st' = mSkinRequests st
        @ (if (0 \<le> sint (hl_skin_offset l) \<and> 0 < sint (hl_skin_size l))
              \<and> \<not> (skin_in_hand l \<and> skin_unzip_ok env)
           then [new_UUIDBasedRequest (getSculptID mesh_params)] else []) \<and>
     mSkinInfoQ st' = mSkinInfoQ st
        @ (if (0 \<le> sint (hl_skin_offset l) \<and> 0 < sint (hl_skin_size l))
              \<and> (skin_in_hand l \<and> skin_unzip_ok env)
           then [getSculptID mesh_params] else [])"
proof (cases "mPendingLOD st (getSculptID mesh_params)")
  case None
  then show ?thesis
    using assms
    by (auto simp: headerReceived_def Let_def request_skin_info_eq pending_count_def)
next
  case (Some pend)
  then show ?thesis
    using assms
    by (auto simp: headerReceived_def Let_def request_skin_info_eq pending_count_def
        pending_lods_loop_eq)
qed

lemma parse_header_cases:
  "parse_header env data_size flags = Inl MESH_PARSE_FAILURE
   \<or> parse_header env data_size flags = Inl MESH_INVALID
   \<or> (\<exists>l. parse_header env data_size flags = Inr l)"
proof -
  obtain actual header' where
    g: "getActualMeshLOD (decoded_header env) 0 = (actual, header')"
    by (cases "getActualMeshLOD (decoded_header env) 0")
  show ?thesis
    by (simp add: parse_header_def Let_def g)
qed

lemma parse_header_failure:
  assumes "parse_header env data_size flags = Inl failure"
  shows "failure \<noteq> MESH_OK"
  using parse_header_cases [of env data_size flags] assms by auto

lemma getActualMeshLOD_zero_cases:
  assumes "\<not> m404 h" and "\<not> sint MAX_MESH_VERSION < sint (mVersion h)"
  shows "(\<exists>k. getActualMeshLOD h 0 = (k, h) \<and> 0 \<le> sint k)
         \<or> getActualMeshLOD h 0 = (- 1, h\<lparr>m404 := True\<rparr>)"
  by (simp add: getActualMeshLOD_zero [OF assms])

text \<open>The locals of a header that comes out without the 404 mark are its own fields.\<close>

lemma parse_header_unmarked:
  assumes p: "parse_header env data_size flags = Inr l" and n: "\<not> m404 (hl_header l)"
  shows "hl_header_size l = window_header_size env (hl_header l) \<and>
         hl_data_size l = stripped_size env \<and>
         hl_skin_offset l = mSkinOffset (hl_header l) \<and>
         hl_skin_size l = mSkinSize (hl_header l) \<and>
         hl_lod_offset l = mLodOffset (hl_header l) \<and>
         hl_lod_size l = mLodSize (hl_header l)"
proof -
  have a: "0 < sint data_size"
  proof (rule ccontr)
    assume "\<not> 0 < sint data_size"
    with p have "m404 (hl_header l)" by (auto simp: parse_header_def Let_def)
    with n show False ..
  qed
  have b: "decode_ok env"
  proof (rule ccontr)
    assume "\<not> decode_ok env"
    with p a show False by (simp add: parse_header_def Let_def)
  qed
  have c: "decoded_is_map env"
  proof (rule ccontr)
    assume "\<not> decoded_is_map env"
    with p a b show False by (simp add: parse_header_def Let_def)
  qed
  have v: "\<not> sint MAX_MESH_VERSION < sint (mVersion (decoded_header env))"
  proof
    assume "sint MAX_MESH_VERSION < sint (mVersion (decoded_header env))"
    with p a b c have "m404 (hl_header l)" by (auto simp: parse_header_def Let_def)
    with n show False ..
  qed
  have u: "\<not> m404 (decoded_header env)"
  proof
    assume m: "m404 (decoded_header env)"
    note g = getActualMeshLOD_marked [OF m, of 0]
    from p a b c v m have "m404 (hl_header l)"
      by (auto simp: parse_header_def Let_def g)
    with n show False ..
  qed
  from getActualMeshLOD_zero_cases [OF u v]
  consider (found) k where
      "getActualMeshLOD (decoded_header env) 0 = (k, decoded_header env)" "0 \<le> sint k"
    | (none)
      "getActualMeshLOD (decoded_header env) 0 = (- 1, (decoded_header env)\<lparr>m404 := True\<rparr>)"
    by blast
  then show ?thesis
  proof cases
    case found
    from p a b c v found show ?thesis
      by (cases "flags = 0")
         (auto simp: parse_header_def Let_def window_header_size_def setFromFlags_def
            flags_from_window_def)
  next
    case none
    from p a b c v none have "m404 (hl_header l)"
      by (auto simp: parse_header_def Let_def)
    with n show ?thesis ..
  qed
qed

text \<open>What \<open>headerReceived\<close> appends to the queues, in terms of the header it stores
  without the 404 mark.\<close>

lemma headerReceived_unmarked:
  assumes r: "headerReceived env mesh_params data_size flags st = (MESH_OK, st')"
    and h: "mMeshHeader st' (getSculptID mesh_params) = Some header"
    and n: "\<not> m404 header"
  shows "mHttpRequestSet st' = mHttpRequestSet st \<and>
     mLODReqQ st' = mLODReqQ st @ map (\<lambda>i. new_LODRequest mesh_params (of_nat i))
        (filter (\<lambda>i. lod_wanted st (getSculptID mesh_params) header i
                      \<and> \<not> lod_served env header i) [0, 1, 2, 3]) \<and>
     mLoadedQ st' = mLoadedQ st @ map (\<lambda>i. \<lparr>mLoadedParams = mesh_params, mLoadedLOD = of_nat i\<rparr>)
        (filter (\<lambda>i. lod_wanted st (getSculptID mesh_params) header i
                      \<and> lod_served env header i) [0, 1, 2, 3]) \<and>
     mSkinRequests st' = mSkinRequests st
        @ (if skin_declared header \<and> \<not> skin_served env header
           then [new_UUIDBasedRequest (getSculptID mesh_params)] else []) \<and>
     mSkinInfoQ st' = mSkinInfoQ st
        @ (if skin_declared header \<and> skin_served env header
           then [getSculptID mesh_params] else [])"
proof -
  obtain l where l: "parse_header env data_size flags = Inr l"
  proof (cases "parse_header env data_size flags")
    case (Inl failure)
    with r have "failure = MESH_OK" by (simp add: headerReceived_def)
    with parse_header_failure [OF Inl] show ?thesis by simp
  next
    case (Inr l)
    then show ?thesis by (rule that)
  qed
  from headerReceived_stores [OF l, of mesh_params st] r h
  have e: "hl_header l = header" by simp
  from parse_header_unmarked [OF l] n e
  have u: "hl_header_size l = window_header_size env header"
    "hl_data_size l = stripped_size env"
    "hl_skin_offset l = mSkinOffset header" "hl_skin_size l = mSkinSize header"
    "hl_lod_offset l = mLodOffset header" "hl_lod_size l = mLodSize header"
    by simp_all
  have s: "skin_declared header
             = (0 \<le> sint (hl_skin_offset l) \<and> 0 < sint (hl_skin_size l))"
    "skin_served env header = (skin_in_hand l \<and> skin_unzip_ok env)"
    "\<And>i. lod_wanted st (getSculptID mesh_params) header i
             = (0 < sint (pending_count st (getSculptID mesh_params) i)
                \<and> 0 < sint (lod_at (hl_lod_size l) i))"
    "\<And>i. lod_served env header i = (lod_in_hand l i \<and> lod_volume_ok env i)"
    by (simp_all add: u skin_declared_def skin_served_def skin_in_window_def skin_in_hand_def
        lod_wanted_def lod_served_def lod_in_window_def lod_in_hand_def)
  from headerReceived_queues [OF l, of mesh_params st] r
  show ?thesis by (simp only: s) simp
qed

lemma lod_request_queued:
  assumes "i < 4"
  shows "new_LODRequest p (of_nat i)
           \<in> set (map (\<lambda>i. new_LODRequest p (of_nat i)) (filter P [0, 1, 2, 3])) \<longleftrightarrow> P i"
proof -
  from assms have "i = 0 \<or> i = 1 \<or> i = 2 \<or> i = 3" by arith
  then show ?thesis by (auto simp: new_LODRequest_def)
qed

lemma lod_delivered:
  assumes "i < 4"
  shows "\<lparr>mLoadedParams = p, mLoadedLOD = of_nat i\<rparr>
           \<in> set (map (\<lambda>i. \<lparr>mLoadedParams = p, mLoadedLOD = of_nat i\<rparr>) (filter P [0, 1, 2, 3]))
         \<longleftrightarrow> P i"
proof -
  from assms have "i = 0 \<or> i = 1 \<or> i = 2 \<or> i = 3" by arith
  then show ?thesis by auto
qed

lemma example_parse: "parse_header example_header_env 4096 0 = Inr example_locals"
  by (simp add: parse_header_def example_header_env_def example_header_def example_locals_def
      getActualMeshLOD_def llclamp_def lod_index_def lod_present_def MAX_MESH_VERSION_def
      flags_from_window_def in_window_def lod_fill_def Let_def)

lemma example_accepting_parse:
  "parse_header example_accepting_env 4096 0 = Inr example_locals"
  by (simp add: parse_header_def example_accepting_env_def example_header_env_def
      example_header_def example_locals_def
      getActualMeshLOD_def llclamp_def lod_index_def lod_present_def MAX_MESH_VERSION_def
      flags_from_window_def in_window_def lod_fill_def Let_def)

lemma example_unsupported_parse:
  "parse_header example_unsupported_env 4096 0 =
     Inr \<lparr>hl_header = (decoded_header example_unsupported_env)\<lparr>m404 := True\<rparr>,
          hl_header_size = 0, hl_data_size = 4096,
          hl_skin_offset = - 1, hl_skin_size = - 1,
          hl_lod_offset = LodArray (- 1) 0 0 0, hl_lod_size = LodArray (- 1) 0 0 0\<rparr>"
  by (simp add: parse_header_def example_unsupported_env_def example_header_env_def
      example_header_def MAX_MESH_VERSION_def Let_def)

lemma example_received:
  "headerReceived example_header_env example_params 4096 0 example_repo_pending =
     (MESH_OK, snd (headerReceived example_header_env example_params 4096 0
        example_repo_pending))"
  "mMeshHeader (snd (headerReceived example_header_env example_params 4096 0
      example_repo_pending)) (getSculptID example_params) = Some (hl_header example_locals)"
  using headerReceived_stores [OF example_parse, of example_params example_repo_pending]
  by (simp_all add: prod_eq_iff)

lemma example_accepting_received:
  "headerReceived example_accepting_env example_params 4096 0 example_repo_pending =
     (MESH_OK, snd (headerReceived example_accepting_env example_params 4096 0
        example_repo_pending))"
  "mMeshHeader (snd (headerReceived example_accepting_env example_params 4096 0
      example_repo_pending)) (getSculptID example_params) = Some (hl_header example_locals)"
  using headerReceived_stores [OF example_accepting_parse, of example_params
      example_repo_pending]
  by (simp_all add: prod_eq_iff)

lemma example_id: "getSculptID example_params = 7"
  by (simp add: getSculptID_def example_params_def)

lemma example_stored:
  "\<not> m404 (hl_header example_locals)"
  "lod_wanted example_repo_pending 7 (hl_header example_locals) i \<longleftrightarrow> i = 2"
  "lod_in_window example_header_env (hl_header example_locals) 2"
  "lod_in_window example_accepting_env (hl_header example_locals) 2"
  "skin_declared (hl_header example_locals)"
  "skin_served example_header_env (hl_header example_locals)"
  "skin_served example_accepting_env (hl_header example_locals)"
  by (simp_all add: lod_wanted_def pending_count_def example_repo_pending_def empty_repo_def
      example_locals_def example_header_def lod_in_window_def window_header_size_def
      skin_declared_def skin_served_def skin_in_window_def example_header_env_def
      example_accepting_env_def)

lemma example_pending_queues:
  "mHttpRequestSet example_repo_pending = []" "mLoadedQ example_repo_pending = []"
  "mLODReqQ example_repo_pending = []" "mSkinRequests example_repo_pending = []"
  "mSkinInfoQ example_repo_pending = []"
  by (simp_all add: example_repo_pending_def empty_repo_def)

lemma example_header_received:
  "mHttpRequestSet (snd (headerReceived example_header_env example_params 4096 0
      example_repo_pending)) = [] \<and>
   mLoadedQ (snd (headerReceived example_header_env example_params 4096 0
      example_repo_pending)) = [] \<and>
   mLODReqQ (snd (headerReceived example_header_env example_params 4096 0
      example_repo_pending)) = [new_LODRequest example_params 2] \<and>
   mSkinRequests (snd (headerReceived example_header_env example_params 4096 0
      example_repo_pending)) = [] \<and>
   mSkinInfoQ (snd (headerReceived example_header_env example_params 4096 0
      example_repo_pending)) = [7]"
proof -
  have f: "\<not> lod_served example_header_env (hl_header example_locals) i" for i
    by (simp add: lod_served_def example_header_env_def)
  from headerReceived_unmarked [OF example_received example_stored(1)]
  show ?thesis
    by (simp add: example_stored f example_pending_queues example_id)
qed

lemma example_unsupported_received:
  "mMeshHeader (snd (headerReceived example_unsupported_env example_params 4096 0
      example_repo_pending)) 7
     = Some ((decoded_header example_unsupported_env)\<lparr>m404 := True\<rparr>) \<and>
   mLoadedQ (snd (headerReceived example_unsupported_env example_params 4096 0
      example_repo_pending)) = [] \<and>
   mLODReqQ (snd (headerReceived example_unsupported_env example_params 4096 0
      example_repo_pending)) = []"
proof -
  from headerReceived_stores [OF example_unsupported_parse, of example_params
      example_repo_pending]
    headerReceived_queues [OF example_unsupported_parse, of example_params
      example_repo_pending]
  show ?thesis
    by (auto simp: example_pending_queues example_id)
qed

text \<open>
  C6 as stated fails. LOD 2 of mesh 7 is pending and its bytes lie inside the 4096 bytes
  of the header fetch, but the volume parser rejects them: the LOD is not delivered and a
  LOD request is queued for it. And when the header of mesh 7 has version 1000 it is
  stored with the 404 mark: LOD 2 is pending, has 100 bytes in the stored header, lies
  inside the window and would parse, and is neither delivered nor queued.
\<close>

theorem lod_in_hand_not_parsed_counterexample:
  "mMeshHeader (snd (headerReceived example_header_env example_params 4096 0
      example_repo_pending)) 7 = Some (hl_header example_locals) \<and>
   \<not> m404 (hl_header example_locals) \<and>
   lod_wanted example_repo_pending 7 (hl_header example_locals) 2 \<and>
   lod_in_window example_header_env (hl_header example_locals) 2 \<and>
   mLoadedQ (snd (headerReceived example_header_env example_params 4096 0
      example_repo_pending)) = [] \<and>
   mLODReqQ (snd (headerReceived example_header_env example_params 4096 0
      example_repo_pending)) = [new_LODRequest example_params 2] \<and>
   mMeshHeader (snd (headerReceived example_unsupported_env example_params 4096 0
      example_repo_pending)) 7
     = Some ((decoded_header example_unsupported_env)\<lparr>m404 := True\<rparr>) \<and>
   lod_wanted example_repo_pending 7
     ((decoded_header example_unsupported_env)\<lparr>m404 := True\<rparr>) 2 \<and>
   lod_served example_unsupported_env
     ((decoded_header example_unsupported_env)\<lparr>m404 := True\<rparr>) 2 \<and>
   mLoadedQ (snd (headerReceived example_unsupported_env example_params 4096 0
      example_repo_pending)) = [] \<and>
   mLODReqQ (snd (headerReceived example_unsupported_env example_params 4096 0
      example_repo_pending)) = []"
proof -
  have w: "lod_wanted example_repo_pending 7
     ((decoded_header example_unsupported_env)\<lparr>m404 := True\<rparr>) 2"
    by (simp add: lod_wanted_def pending_count_def example_repo_pending_def empty_repo_def
        example_unsupported_env_def example_header_env_def example_header_def)
  have s: "lod_served example_unsupported_env
     ((decoded_header example_unsupported_env)\<lparr>m404 := True\<rparr>) 2"
    by (simp add: lod_served_def lod_in_window_def window_header_size_def
        example_unsupported_env_def example_header_env_def example_header_def)
  from example_received(2) example_stored(1) example_stored(2) [of 2] example_stored(3)
    example_header_received example_unsupported_received w s
  show ?thesis by (simp add: example_id)
qed

text \<open>
  C6, amended. After a header lands and is stored without the 404 mark, for every LOD
  with a positive count in the pending-LOD table and a positive size in the stored
  header: the worker delivers the LOD straight from the bytes of the header fetch when
  \<open>header_size + offset + size <= data_size\<close> and those bytes parse, and queues no
  request for it; otherwise, also when the bytes are in hand but do not parse, it queues
  a LOD request and delivers nothing. For the skin, when the stored header declares one,
  the same holds with \<open>header_size + offset + size < data_size\<close>. \<open>headerReceived\<close>
  itself issues no HTTP request.
\<close>

theorem header_bytes_serve_sub_sections:
  assumes "headerReceived env mesh_params data_size flags st = (MESH_OK, st')"
    and "mMeshHeader st' (getSculptID mesh_params) = Some header"
    and "\<not> m404 header"
  shows "mHttpRequestSet st' = mHttpRequestSet st \<and>
     (\<exists>requested delivered.
        mLODReqQ st' = mLODReqQ st @ requested \<and>
        mLoadedQ st' = mLoadedQ st @ delivered \<and>
        (\<forall>i<4. lod_wanted st (getSculptID mesh_params) header i \<longrightarrow>
           (if lod_served env header i
            then \<lparr>mLoadedParams = mesh_params, mLoadedLOD = of_nat i\<rparr> \<in> set delivered \<and>
                 new_LODRequest mesh_params (of_nat i) \<notin> set requested
            else new_LODRequest mesh_params (of_nat i) \<in> set requested \<and>
                 \<lparr>mLoadedParams = mesh_params, mLoadedLOD = of_nat i\<rparr> \<notin> set delivered))) \<and>
     (skin_declared header \<longrightarrow>
        (if skin_served env header
         then mSkinInfoQ st' = mSkinInfoQ st @ [getSculptID mesh_params] \<and>
              mSkinRequests st' = mSkinRequests st
         else mSkinRequests st' = mSkinRequests st
                @ [new_UUIDBasedRequest (getSculptID mesh_params)] \<and>
              mSkinInfoQ st' = mSkinInfoQ st))"
proof -
  define requested where "requested =
    map (\<lambda>i. new_LODRequest mesh_params (of_nat i))
      (filter (\<lambda>i. lod_wanted st (getSculptID mesh_params) header i
                    \<and> \<not> lod_served env header i) [0, 1, 2, 3])"
  define delivered where "delivered =
    map (\<lambda>i. \<lparr>mLoadedParams = mesh_params, mLoadedLOD = of_nat i\<rparr>)
      (filter (\<lambda>i. lod_wanted st (getSculptID mesh_params) header i
                    \<and> lod_served env header i) [0, 1, 2, 3])"
  from headerReceived_unmarked [OF assms]
  have q: "mHttpRequestSet st' = mHttpRequestSet st"
    "mLODReqQ st' = mLODReqQ st @ requested"
    "mLoadedQ st' = mLoadedQ st @ delivered"
    and k: "mSkinRequests st' = mSkinRequests st
        @ (if skin_declared header \<and> \<not> skin_served env header
           then [new_UUIDBasedRequest (getSculptID mesh_params)] else [])"
      "mSkinInfoQ st' = mSkinInfoQ st
        @ (if skin_declared header \<and> skin_served env header
           then [getSculptID mesh_params] else [])"
    by (simp_all add: requested_def delivered_def)
  have m: "new_LODRequest mesh_params (of_nat i) \<in> set requested \<longleftrightarrow>
             lod_wanted st (getSculptID mesh_params) header i \<and> \<not> lod_served env header i"
    "\<lparr>mLoadedParams = mesh_params, mLoadedLOD = of_nat i\<rparr> \<in> set delivered \<longleftrightarrow>
             lod_wanted st (getSculptID mesh_params) header i \<and> lod_served env header i"
    if "i < 4" for i
    unfolding requested_def delivered_def
    by (rule lod_request_queued [OF that], rule lod_delivered [OF that])
  have lods: "\<forall>i<4. lod_wanted st (getSculptID mesh_params) header i \<longrightarrow>
           (if lod_served env header i
            then \<lparr>mLoadedParams = mesh_params, mLoadedLOD = of_nat i\<rparr> \<in> set delivered \<and>
                 new_LODRequest mesh_params (of_nat i) \<notin> set requested
            else new_LODRequest mesh_params (of_nat i) \<in> set requested \<and>
                 \<lparr>mLoadedParams = mesh_params, mLoadedLOD = of_nat i\<rparr> \<notin> set delivered)"
    using m by simp
  have skin: "skin_declared header \<longrightarrow>
        (if skin_served env header
         then mSkinInfoQ st' = mSkinInfoQ st @ [getSculptID mesh_params] \<and>
              mSkinRequests st' = mSkinRequests st
         else mSkinRequests st' = mSkinRequests st
                @ [new_UUIDBasedRequest (getSculptID mesh_params)] \<and>
              mSkinInfoQ st' = mSkinInfoQ st)"
    using k by simp
  from q lods skin show ?thesis by blast
qed

theorem header_bytes_serve_sub_sections_witness:
  "headerReceived example_header_env example_params 4096 0 example_repo_pending =
     (MESH_OK, snd (headerReceived example_header_env example_params 4096 0
        example_repo_pending)) \<and>
   mMeshHeader (snd (headerReceived example_header_env example_params 4096 0
      example_repo_pending)) 7 = Some (hl_header example_locals) \<and>
   \<not> m404 (hl_header example_locals) \<and>
   lod_wanted example_repo_pending 7 (hl_header example_locals) 2 \<and>
   \<not> lod_served example_header_env (hl_header example_locals) 2 \<and>
   skin_declared (hl_header example_locals) \<and>
   skin_served example_header_env (hl_header example_locals) \<and>
   mHttpRequestSet (snd (headerReceived example_header_env example_params 4096 0
      example_repo_pending)) = [] \<and>
   new_LODRequest example_params 2
     \<in> set (mLODReqQ (snd (headerReceived example_header_env example_params 4096 0
          example_repo_pending))) \<and>
   \<lparr>mLoadedParams = example_params, mLoadedLOD = 2\<rparr>
     \<notin> set (mLoadedQ (snd (headerReceived example_header_env example_params 4096 0
          example_repo_pending))) \<and>
   mSkinInfoQ (snd (headerReceived example_header_env example_params 4096 0
      example_repo_pending)) = [7] \<and>
   mSkinRequests (snd (headerReceived example_header_env example_params 4096 0
      example_repo_pending)) = [] \<and>
   headerReceived example_accepting_env example_params 4096 0 example_repo_pending =
     (MESH_OK, snd (headerReceived example_accepting_env example_params 4096 0
        example_repo_pending)) \<and>
   mMeshHeader (snd (headerReceived example_accepting_env example_params 4096 0
      example_repo_pending)) 7 = Some (hl_header example_locals) \<and>
   lod_served example_accepting_env (hl_header example_locals) 2 \<and>
   \<lparr>mLoadedParams = example_params, mLoadedLOD = 2\<rparr>
     \<in> set (mLoadedQ (snd (headerReceived example_accepting_env example_params 4096 0
          example_repo_pending))) \<and>
   new_LODRequest example_params 2
     \<notin> set (mLODReqQ (snd (headerReceived example_accepting_env example_params 4096 0
          example_repo_pending)))"
proof -
  have r: "\<not> lod_served example_header_env (hl_header example_locals) 2"
    by (simp add: lod_served_def example_header_env_def)
  have a: "lod_served example_accepting_env (hl_header example_locals) 2"
    using example_stored(4) by (simp add: lod_served_def example_accepting_env_def)
  have w: "lod_wanted example_repo_pending (getSculptID example_params)
      (hl_header example_locals) 2"
    using example_stored(2) [of 2] by (simp add: example_id)
  have two: "(2 :: nat) < 4" by simp
  from header_bytes_serve_sub_sections [OF example_received example_stored(1)]
  obtain requested delivered where
    q: "mHttpRequestSet (snd (headerReceived example_header_env example_params 4096 0
          example_repo_pending)) = mHttpRequestSet example_repo_pending"
      "mLODReqQ (snd (headerReceived example_header_env example_params 4096 0
          example_repo_pending)) = mLODReqQ example_repo_pending @ requested"
      "mLoadedQ (snd (headerReceived example_header_env example_params 4096 0
          example_repo_pending)) = mLoadedQ example_repo_pending @ delivered"
    and l: "\<forall>i<4. lod_wanted example_repo_pending (getSculptID example_params)
                (hl_header example_locals) i \<longrightarrow>
           (if lod_served example_header_env (hl_header example_locals) i
            then \<lparr>mLoadedParams = example_params, mLoadedLOD = of_nat i\<rparr> \<in> set delivered \<and>
                 new_LODRequest example_params (of_nat i) \<notin> set requested
            else new_LODRequest example_params (of_nat i) \<in> set requested \<and>
                 \<lparr>mLoadedParams = example_params, mLoadedLOD = of_nat i\<rparr> \<notin> set delivered)"
    and k: "skin_declared (hl_header example_locals) \<longrightarrow>
        (if skin_served example_header_env (hl_header example_locals)
         then mSkinInfoQ (snd (headerReceived example_header_env example_params 4096 0
                  example_repo_pending))
                = mSkinInfoQ example_repo_pending @ [getSculptID example_params] \<and>
              mSkinRequests (snd (headerReceived example_header_env example_params 4096 0
                  example_repo_pending)) = mSkinRequests example_repo_pending
         else mSkinRequests (snd (headerReceived example_header_env example_params 4096 0
                  example_repo_pending))
                = mSkinRequests example_repo_pending
                    @ [new_UUIDBasedRequest (getSculptID example_params)] \<and>
              mSkinInfoQ (snd (headerReceived example_header_env example_params 4096 0
                  example_repo_pending)) = mSkinInfoQ example_repo_pending)"
    by blast
  from l [rule_format, OF two w] r
  have "new_LODRequest example_params 2 \<in> set requested \<and>
        \<lparr>mLoadedParams = example_params, mLoadedLOD = 2\<rparr> \<notin> set delivered"
    by simp
  with q k example_stored(5,6)
  have 1: "mHttpRequestSet (snd (headerReceived example_header_env example_params 4096 0
      example_repo_pending)) = [] \<and>
   new_LODRequest example_params 2
     \<in> set (mLODReqQ (snd (headerReceived example_header_env example_params 4096 0
          example_repo_pending))) \<and>
   \<lparr>mLoadedParams = example_params, mLoadedLOD = 2\<rparr>
     \<notin> set (mLoadedQ (snd (headerReceived example_header_env example_params 4096 0
          example_repo_pending))) \<and>
   mSkinInfoQ (snd (headerReceived example_header_env example_params 4096 0
      example_repo_pending)) = [7] \<and>
   mSkinRequests (snd (headerReceived example_header_env example_params 4096 0
      example_repo_pending)) = []"
    by (simp add: example_pending_queues example_id)
  from header_bytes_serve_sub_sections [OF example_accepting_received example_stored(1)]
  obtain requested' delivered' where
    q': "mLODReqQ (snd (headerReceived example_accepting_env example_params 4096 0
          example_repo_pending)) = mLODReqQ example_repo_pending @ requested'"
      "mLoadedQ (snd (headerReceived example_accepting_env example_params 4096 0
          example_repo_pending)) = mLoadedQ example_repo_pending @ delivered'"
    and l': "\<forall>i<4. lod_wanted example_repo_pending (getSculptID example_params)
                (hl_header example_locals) i \<longrightarrow>
           (if lod_served example_accepting_env (hl_header example_locals) i
            then \<lparr>mLoadedParams = example_params, mLoadedLOD = of_nat i\<rparr> \<in> set delivered' \<and>
                 new_LODRequest example_params (of_nat i) \<notin> set requested'
            else new_LODRequest example_params (of_nat i) \<in> set requested' \<and>
                 \<lparr>mLoadedParams = example_params, mLoadedLOD = of_nat i\<rparr> \<notin> set delivered')"
    by blast
  from l' [rule_format, OF two w] a
  have "\<lparr>mLoadedParams = example_params, mLoadedLOD = 2\<rparr> \<in> set delivered' \<and>
        new_LODRequest example_params 2 \<notin> set requested'"
    by simp
  with q'
  have 2: "\<lparr>mLoadedParams = example_params, mLoadedLOD = 2\<rparr>
     \<in> set (mLoadedQ (snd (headerReceived example_accepting_env example_params 4096 0
          example_repo_pending))) \<and>
   new_LODRequest example_params 2
     \<notin> set (mLODReqQ (snd (headerReceived example_accepting_env example_params 4096 0
          example_repo_pending)))"
    by (simp add: example_pending_queues)
  from example_received example_accepting_received example_stored(1) example_stored(2) [of 2]
    r a example_stored(5,6) 1 2
  show ?thesis by (simp add: example_id)
qed

section \<open>Eviction of skins\<close>

lemma cull_work_queue:
  "mWorkQueue (foldl (\<lambda>s e. cull_skin_entry e s) st es) =
     mWorkQueue st @ map (\<lambda>e. EraseSkin (fst e)) es"
proof (induction es arbitrary: st)
  case Nil
  show ?case by simp
next
  case (Cons e es)
  show ?case by (cases e) (simp add: Cons.IH Let_def)
qed

lemma cull_posts_for_every_entry:
  "mWorkQueue (cull_skin_info st) = mWorkQueue st @ map (\<lambda>e. EraseSkin (fst e)) (mSkinMap st)"
  by (simp add: cull_skin_info_def cull_work_queue)

text \<open>
  C9 fails on the code. The eviction pass removes from the registry's map only the entry
  with a single reference (mesh 8), but it posts the closure that erases the worker's
  copy for every entry it walks over: once the worker has run its work queue, its copy of
  the skin of mesh 7, which an object still holds, is gone as well.
\<close>

theorem skin_cull_erases_held_entry:
  "mSkinMap (cull_skin_info example_repo_skins) = [(7, 2)] \<and>
   mWorkQueue (cull_skin_info example_repo_skins) = [EraseSkin 7, EraseSkin 8] \<and>
   mThreadSkinMap (run_work_queue 2 (cull_skin_info example_repo_skins)) = {}"
  by (simp add: cull_skin_info_def run_work_queue_def example_repo_skins_def empty_repo_def
      Let_def)

section \<open>Outstanding requests for one sub-section\<close>

text \<open>
  C2 fails on the code. In the run described with \<open>skin_second_pass\<close> nothing is
  outstanding while the request waits for the header, two skin requests for mesh 7 stand
  in the worker's queue once the header has arrived, and after the next pass of the
  worker two HTTP handles are outstanding for the skin of mesh 7.
\<close>

theorem two_skin_requests_in_flight:
  "outstanding skin_first_pass 7 SubSkin = 0 \<and>
   map mId (mSkinRequests skin_header_landed) = [7, 7] \<and>
   outstanding skin_second_pass 7 SubSkin = 2"
  by code_simp

section \<open>Further facts\<close>

text \<open>Where the presence bits are cleared: in the parse task, when cached bytes that
  passed the zero test are rejected by the parser.\<close>

lemma cache_mismatch_clears_flags:
  assumes "mMeshHeader st mesh_id = Some header"
  shows "mMeshHeader (cache_mismatch layout env mesh_id st) mesh_id
           = Some (mark_all_missing header)"
  using assms by (simp add: cache_mismatch_def write_preamble_def Let_def)

lemma rejected_cached_lod_is_requested_again:
  assumes "\<not> shutting_down env" and "\<not> task_parse_succeeded env"
    and "mMeshHeader st (getSculptID params) = Some header"
  shows "mMeshHeader (run_pool_task layout env (ParseCachedLOD params lod sz) st)
           (getSculptID params) = Some (mark_all_missing header) \<and>
         last (mLODReqQ (run_pool_task layout env (ParseCachedLOD params lod sz) st))
           = new_LODRequest params lod"
  using assms
  by (simp add: lodReceived_def cache_mismatch_def write_preamble_def Let_def)

text \<open>A second request of the registry for a mesh and LOD that is already loading adds
  the object to the loading table and creates no pending request.\<close>

lemma loadMesh_coalesces:
  assumes "valid_lod new_lod"
    and "lod_at (mLoadingMeshes st) (lod_index new_lod) (getSculptID mesh_params) = Some d"
  shows "mPendingRequests (snd (loadMesh env vobj mesh_params new_lod last_lod st))
           = mPendingRequests st"
  using assms by (simp add: loadMesh_def valid_lod_def Let_def)

text \<open>Without overflow the two 32-bit tests of \<open>headerReceived\<close> are the plain
  comparisons of \<open>header_size + offset + size\<close> with \<open>data_size\<close>.\<close>

lemma sint_sum3:
  fixes a b :: S32
  assumes "0 \<le> hs" and "0 \<le> sint a" and "0 \<le> sint b" and "hs + sint a + sint b < 2 ^ 31"
  shows "sint (of_int hs + a + b) = hs + sint a + sint b"
proof -
  define x where "x = hs + sint a + sint b"
  have w: "of_int hs + a + b = (of_int x :: S32)"
    by (simp add: x_def)
  have lo: "- (2 ^ 31) \<le> x" and hi: "x < 2 ^ 31"
    using assms by (simp_all add: x_def)
  have "sint (of_int x :: S32) = signed_take_bit 31 x"
    by (simp add: sint_sbintrunc')
  also have "\<dots> = x"
    using lo hi by (rule signed_take_bit_int_eq_self)
  finally have "sint (of_int x :: S32) = x" .
  then show ?thesis
    by (simp only: w) (simp add: x_def)
qed

lemma lod_in_window_plain:
  assumes "0 \<le> window_header_size env header"
    and "0 \<le> sint (lod_at (mLodOffset header) i)"
    and "0 \<le> sint (lod_at (mLodSize header) i)"
    and "window_header_size env header + sint (lod_at (mLodOffset header) i)
           + sint (lod_at (mLodSize header) i) < 2 ^ 31"
  shows "lod_in_window env header i \<longleftrightarrow>
           window_header_size env header + sint (lod_at (mLodOffset header) i)
             + sint (lod_at (mLodSize header) i) \<le> sint (stripped_size env)"
  using sint_sum3 [OF assms] by (simp add: lod_in_window_def)

lemma skin_in_window_plain:
  assumes "0 \<le> window_header_size env header" and "0 \<le> sint (mSkinOffset header)"
    and "0 \<le> sint (mSkinSize header)"
    and "window_header_size env header + sint (mSkinOffset header)
           + sint (mSkinSize header) < 2 ^ 31"
  shows "skin_in_window env header \<longleftrightarrow>
           window_header_size env header + sint (mSkinOffset header) + sint (mSkinSize header)
             < sint (stripped_size env)"
  using sint_sum3 [OF assms] by (simp add: skin_in_window_def)

section \<open>Headers first: the invariant\<close>

lemma fetchMeshLOD_headers_first:
  assumes "headers_first st" and "fetchMeshLOD env mesh_params lod st = Some (ok, st')"
  shows "headers_first st'"
proof (cases "mMeshHeader st (getSculptID mesh_params)")
  case None
  with assms show ?thesis by (simp add: fetchMeshLOD_def)
next
  case (Some header)
  with assms show ?thesis
    by (auto simp: fetchMeshLOD_def headers_first_def lodReceived_def Let_def new_handler_def
        split: if_splits)
qed

lemma fetchMeshSkinInfo_headers_first:
  assumes "headers_first st"
  shows "headers_first (snd (fetchMeshSkinInfo env mesh_id st))"
proof (cases "mMeshHeader st mesh_id")
  case None
  with assms show ?thesis by (simp add: fetchMeshSkinInfo_def)
next
  case (Some header)
  with assms show ?thesis
    by (auto simp: fetchMeshSkinInfo_def headers_first_def skinInfoReceived_def Let_def
        new_handler_def split: if_splits)
qed

lemma fetchMeshDecomposition_headers_first:
  assumes "headers_first st"
  shows "headers_first (snd (fetchMeshDecomposition env mesh_id st))"
proof (cases "mMeshHeader st mesh_id")
  case None
  with assms show ?thesis by (simp add: fetchMeshDecomposition_def)
next
  case (Some header)
  with assms show ?thesis
    by (auto simp: fetchMeshDecomposition_def headers_first_def decompositionReceived_def
        Let_def new_handler_def split: if_splits)
qed

lemma fetchMeshPhysicsShape_headers_first:
  assumes "headers_first st"
  shows "headers_first (snd (fetchMeshPhysicsShape env mesh_id st))"
proof (cases "mMeshHeader st mesh_id")
  case None
  with assms show ?thesis by (simp add: fetchMeshPhysicsShape_def)
next
  case (Some header)
  with assms show ?thesis
    by (auto simp: fetchMeshPhysicsShape_def headers_first_def physicsShapeReceived_def
        Let_def new_handler_def split: if_splits)
qed

lemma loadMeshLOD_headers_first:
  assumes "headers_first st" and "loadMeshLOD mesh_params lod st = Some st'"
  shows "headers_first st'"
  using assms
  by (auto simp: loadMeshLOD_def headers_first_def Let_def split: if_splits option.splits)

lemma headerReceived_headers_first:
  assumes "headers_first st"
  shows "headers_first (snd (headerReceived env mesh_params data_size flags st))"
proof (cases "parse_header env data_size flags")
  case (Inl failure)
  with assms show ?thesis by (simp add: headerReceived_def)
next
  case (Inr l)
  from headerReceived_queues [OF Inr, of mesh_params st]
  obtain st' where r: "headerReceived env mesh_params data_size flags st = (MESH_OK, st')"
    and h: "mHttpRequestSet st' = mHttpRequestSet st" by blast
  have m: "mMeshHeader st' = (mMeshHeader st)(getSculptID mesh_params \<mapsto> hl_header l)"
    using Inr r
    by (auto simp: headerReceived_def Let_def split: option.splits)
  show ?thesis
    using assms r h m by (auto simp: headers_first_def list_all_iff)
qed

lemma skin_requests_loop_headers_first:
  "headers_first st \<Longrightarrow> headers_first (skin_requests_loop envs now high_water k q inc st)"
proof (induction q arbitrary: k inc st)
  case Nil
  then show ?case by (simp add: headers_first_def)
next
  case (Cons req rest)
  obtain ok st' where f: "fetchMeshSkinInfo (envs k) (mId req) st = (ok, st')"
    by (cases "fetchMeshSkinInfo (envs k) (mId req) st")
  from fetchMeshSkinInfo_headers_first [OF Cons.prems, of "envs k" "mId req"] f
  have h': "headers_first st'" by simp
  then have u: "headers_first (st'\<lparr>mSkinUnavailableQ := mSkinUnavailableQ st' @ [req]\<rparr>)"
    by (simp add: headers_first_def)
  have s: "headers_first (st\<lparr>mSkinRequests := (req # rest) @ inc\<rparr>)"
    using Cons.prems by (simp add: headers_first_def)
  show ?case
    using f s Cons.IH [OF Cons.prems] Cons.IH [OF h'] Cons.IH [OF u]
    by (cases ok) simp_all
qed

lemma run_skin_requests_headers_first:
  "headers_first st \<Longrightarrow> headers_first (run_skin_requests envs now high_water st)"
  by (simp add: run_skin_requests_def skin_requests_loop_headers_first)

text \<open>
  C4. For a mesh whose header is not in the header map, each of the four sub-section
  fetch functions returns false and changes nothing, so it issues no HTTP request; a
  request for a LOD (0 to 3) of such a mesh queues no LOD request and issues none, is
  counted in the pending-LOD table, and queues a header request only when the table had
  no entry for the mesh yet. And in every state: if each outstanding sub-section handler
  belongs to a mesh whose header is stored, that is still so after any of the fetch
  functions, after \<open>loadMeshLOD\<close>, after \<open>headerReceived\<close> and after a pass of
  the worker over its skin queue.
\<close>

theorem header_before_body:
  "(mMeshHeader st (getSculptID mesh_params) = None \<and> valid_lod lod \<longrightarrow>
      fetchMeshLOD env mesh_params lod st = Some (False, st) \<and>
      fetchMeshSkinInfo env (getSculptID mesh_params) st = (False, st) \<and>
      fetchMeshDecomposition env (getSculptID mesh_params) st = (False, st) \<and>
      fetchMeshPhysicsShape env (getSculptID mesh_params) st = (False, st) \<and>
      (\<exists>st'. loadMeshLOD mesh_params lod st = Some st' \<and>
         mLODReqQ st' = mLODReqQ st \<and> mHttpRequestSet st' = mHttpRequestSet st \<and>
         mMeshHeader st' = mMeshHeader st \<and>
         (\<exists>pending. mPendingLOD st' (getSculptID mesh_params) = Some pending \<and>
            lod_at pending (lod_index lod) =
              (case mPendingLOD st (getSculptID mesh_params) of
                 None \<Rightarrow> 1 | Some old \<Rightarrow> lod_at old (lod_index lod) + 1)) \<and>
         mHeaderReqQ st' =
           (if mPendingLOD st (getSculptID mesh_params) = None
            then mHeaderReqQ st @ [new_HeaderRequest mesh_params] else mHeaderReqQ st))) \<and>
   (headers_first st \<longrightarrow>
      (\<forall>r. fetchMeshLOD env mesh_params lod st = Some r \<longrightarrow> headers_first (snd r)) \<and>
      headers_first (snd (fetchMeshSkinInfo env mesh_id st)) \<and>
      headers_first (snd (fetchMeshDecomposition env mesh_id st)) \<and>
      headers_first (snd (fetchMeshPhysicsShape env mesh_id st)) \<and>
      (\<forall>st'. loadMeshLOD mesh_params lod st = Some st' \<longrightarrow> headers_first st') \<and>
      headers_first (snd (headerReceived henv mesh_params data_size flags st)) \<and>
      headers_first (run_skin_requests envs now high_water st))"
proof (intro conjI impI)
  assume "mMeshHeader st (getSculptID mesh_params) = None \<and> valid_lod lod"
  then have a: "mMeshHeader st (getSculptID mesh_params) = None" and b: "valid_lod lod"
    by simp_all
  note n = no_header_no_fetch [OF a b, of env]
  from n show "fetchMeshLOD env mesh_params lod st = Some (False, st)" by blast
  from n show "fetchMeshSkinInfo env (getSculptID mesh_params) st = (False, st)" by blast
  from n show "fetchMeshDecomposition env (getSculptID mesh_params) st = (False, st)"
    by blast
  from n show "fetchMeshPhysicsShape env (getSculptID mesh_params) st = (False, st)"
    by blast
  from n show "\<exists>st'. loadMeshLOD mesh_params lod st = Some st' \<and>
         mLODReqQ st' = mLODReqQ st \<and> mHttpRequestSet st' = mHttpRequestSet st \<and>
         mMeshHeader st' = mMeshHeader st \<and>
         (\<exists>pending. mPendingLOD st' (getSculptID mesh_params) = Some pending \<and>
            lod_at pending (lod_index lod) =
              (case mPendingLOD st (getSculptID mesh_params) of
                 None \<Rightarrow> 1 | Some old \<Rightarrow> lod_at old (lod_index lod) + 1)) \<and>
         mHeaderReqQ st' =
           (if mPendingLOD st (getSculptID mesh_params) = None
            then mHeaderReqQ st @ [new_HeaderRequest mesh_params] else mHeaderReqQ st)"
    by blast
next
  assume h: "headers_first st"
  show "\<forall>r. fetchMeshLOD env mesh_params lod st = Some r \<longrightarrow> headers_first (snd r)"
    using fetchMeshLOD_headers_first [OF h] by auto
  show "headers_first (snd (fetchMeshSkinInfo env mesh_id st))"
    using h by (rule fetchMeshSkinInfo_headers_first)
  show "headers_first (snd (fetchMeshDecomposition env mesh_id st))"
    using h by (rule fetchMeshDecomposition_headers_first)
  show "headers_first (snd (fetchMeshPhysicsShape env mesh_id st))"
    using h by (rule fetchMeshPhysicsShape_headers_first)
  show "\<forall>st'. loadMeshLOD mesh_params lod st = Some st' \<longrightarrow> headers_first st'"
    using loadMeshLOD_headers_first [OF h] by auto
  show "headers_first (snd (headerReceived henv mesh_params data_size flags st))"
    using h by (rule headerReceived_headers_first)
  show "headers_first (run_skin_requests envs now high_water st)"
    using h by (rule run_skin_requests_headers_first)
qed

theorem header_before_body_witness:
  "mMeshHeader empty_repo (getSculptID example_params) = None \<and> valid_lod 2 \<and>
   headers_first empty_repo \<and>
   fetchMeshLOD example_env example_params 2 empty_repo = Some (False, empty_repo) \<and>
   fetchMeshSkinInfo example_env 7 empty_repo = (False, empty_repo) \<and>
   fetchMeshDecomposition example_env 7 empty_repo = (False, empty_repo) \<and>
   fetchMeshPhysicsShape example_env 7 empty_repo = (False, empty_repo) \<and>
   (\<exists>st'. loadMeshLOD example_params 2 empty_repo = Some st' \<and>
      mLODReqQ st' = [] \<and> mHttpRequestSet st' = [] \<and>
      mHeaderReqQ st' = [new_HeaderRequest example_params]) \<and>
   headers_first (snd (headerReceived example_header_env example_params 4096 0 empty_repo)) \<and>
   headers_first (run_skin_requests example_transport 0 32 empty_repo)"
proof -
  have h: "mMeshHeader empty_repo (getSculptID example_params) = None"
    by (simp add: empty_repo_def)
  have v: "valid_lod 2" by (simp add: valid_lod_def NUM_LODS_def)
  have f: "headers_first empty_repo"
    by (simp add: headers_first_def empty_repo_def)
  have e: "mLODReqQ empty_repo = []" "mHttpRequestSet empty_repo = []"
    "mHeaderReqQ empty_repo = []" "mPendingLOD empty_repo (getSculptID example_params) = None"
    by (simp_all add: empty_repo_def)
  have i: "getSculptID example_params = 7"
    by (simp add: getSculptID_def example_params_def)
  from header_before_body [of empty_repo example_params 2 example_env 7 example_header_env
      4096 0 example_transport 0 32] h v f e i
  show ?thesis by auto
qed

end
